theory Spec2Isabelle
  imports Complex_Main
begin

section \<open>The JavaScript runtime the handlers run on\<close>

text \<open>
  The two source files are client scripts of a Frappe application. Each registers one
  handler, \<^verbatim>\<open>load_sync(frm)\<close>, with the form framework: the file
  \<^verbatim>\<open>amazon_settings.js\<close> for the form "Amazon Settings" and the second file for the
  form "Amazon API Settings". Both define the same local function
  \<^verbatim>\<open>formatToISO8601\<close>, which relies on the built-in \<^verbatim>\<open>Date\<close> object. This
  section embeds the part of ECMA-262 (section 21.4, Date objects) that the function
  reaches: a time value is a whole number of milliseconds since 1970-01-01T00:00:00Z,
  or NaN; HOL's \<open>div\<close> and \<open>mod\<close> on \<open>int\<close> round towards minus infinity, as the
  standard's floor and modulo do.
\<close>

subsection \<open>Values\<close>

text \<open>
  A value decoded from a JSON response. A JSON number is finite; the sign of zero is not
  kept, since the handlers only test a number for truthiness.
\<close>

datatype js_value =
    JUndefined
  | JNull
  | JBool bool
  | JNum rat
  | JStr string
  | JArr "js_value list"
  | JObj "(string \<times> js_value) list"

text \<open>ToBoolean (ECMA-262 7.1.2): what \<^verbatim>\<open>if (v)\<close>, \<^verbatim>\<open>!v\<close> and \<^verbatim>\<open>v && ...\<close> test.\<close>

fun truthy :: "js_value \<Rightarrow> bool" where
  "truthy JUndefined = False"
| "truthy JNull = False"
| "truthy (JBool b) = b"
| "truthy (JNum n) = (n \<noteq> 0)"
| "truthy (JStr s) = (s \<noteq> [])"
| "truthy (JArr xs) = True"
| "truthy (JObj kvs) = True"

text \<open>\<^verbatim>\<open>Array.isArray(v)\<close>.\<close>

fun isArray :: "js_value \<Rightarrow> bool" where
  "isArray (JArr xs) = True"
| "isArray v = False"

text \<open>
  \<^verbatim>\<open>v.length\<close>, read only where \<^verbatim>\<open>Array.isArray(v)\<close> has held; the length of a
  string is included for completeness, every other value has no such property.
\<close>

fun js_length :: "js_value \<Rightarrow> nat option" where
  "js_length (JArr xs) = Some (length xs)"
| "js_length (JStr s) = Some (length s)"
| "js_length v = None"

text \<open>
  The value of a Date or Datetime field of the form document: a string, or
  \<^verbatim>\<open>null\<close> or \<^verbatim>\<open>undefined\<close> when the field is not set.
\<close>

datatype field_value = Undefined | Null | Str string

text \<open>\<^verbatim>\<open>!dateString\<close> on a field value: the empty string is falsy too.\<close>

fun falsy_field :: "field_value \<Rightarrow> bool" where
  "falsy_field Undefined = True"
| "falsy_field Null = True"
| "falsy_field (Str s) = (s = [])"

datatype js_error = RangeError

subsection \<open>Days, years and months (ECMA-262 21.4.1.3 to 21.4.1.13)\<close>

definition msPerDay :: int where "msPerDay = 86400000"
definition msPerHour :: int where "msPerHour = 3600000"
definition msPerMinute :: int where "msPerMinute = 60000"
definition msPerSecond :: int where "msPerSecond = 1000"

definition Day :: "int \<Rightarrow> int" where
  "Day t = t div msPerDay"

definition TimeWithinDay :: "int \<Rightarrow> int" where
  "TimeWithinDay t = t mod msPerDay"

definition DaysInYear :: "int \<Rightarrow> int" where
  "DaysInYear y =
     (if y mod 4 \<noteq> 0 then 365
      else if y mod 100 \<noteq> 0 then 366
      else if y mod 400 \<noteq> 0 then 365
      else 366)"

definition DayFromYear :: "int \<Rightarrow> int" where
  "DayFromYear y =
     365 * (y - 1970) + (y - 1969) div 4 - (y - 1901) div 100 + (y - 1601) div 400"

definition TimeFromYear :: "int \<Rightarrow> int" where
  "TimeFromYear y = msPerDay * DayFromYear y"

text \<open>
  The standard defines \<^verbatim>\<open>YearFromTime(t)\<close> as the largest \<open>y\<close> with
  \<open>TimeFromYear y \<le> t\<close>. The function below computes it: a year of the Gregorian
  calendar has 146097 / 400 days on average, which gives a first guess that is off by at
  most one (lemma \<open>YearFromTime_largest\<close> below proves that the result is that largest
  year).
\<close>

definition YearFromDay :: "int \<Rightarrow> int" where
  "YearFromDay d =
     (let y = 1970 + (400 * d) div 146097
      in if d < DayFromYear y then y - 1
         else if DayFromYear (y + 1) \<le> d then y + 1
         else y)"

definition YearFromTime :: "int \<Rightarrow> int" where
  "YearFromTime t = YearFromDay (Day t)"

definition InLeapYear :: "int \<Rightarrow> int" where
  "InLeapYear t = (if DaysInYear (YearFromTime t) = 366 then 1 else 0)"

definition DayWithinYear :: "int \<Rightarrow> int" where
  "DayWithinYear t = Day t - DayFromYear (YearFromTime t)"

text \<open>
  The day of the year on which month \<open>m\<close> (0 for January) starts, in a year with
  \<open>leap\<close> extra days: the bounds of the table of \<^verbatim>\<open>MonthFromTime\<close>.
\<close>

definition month_start :: "int \<Rightarrow> int \<Rightarrow> int" where
  "month_start m leap =
     (if m = 0 then 0
      else if m = 1 then 31
      else if m = 2 then 59 + leap
      else if m = 3 then 90 + leap
      else if m = 4 then 120 + leap
      else if m = 5 then 151 + leap
      else if m = 6 then 181 + leap
      else if m = 7 then 212 + leap
      else if m = 8 then 243 + leap
      else if m = 9 then 273 + leap
      else if m = 10 then 304 + leap
      else if m = 11 then 334 + leap
      else 365 + leap)"

definition MonthFromTime :: "int \<Rightarrow> int" where
  "MonthFromTime t =
     (let d = DayWithinYear t; leap = InLeapYear t
      in if d < 31 then 0
         else if d < 59 + leap then 1
         else if d < 90 + leap then 2
         else if d < 120 + leap then 3
         else if d < 151 + leap then 4
         else if d < 181 + leap then 5
         else if d < 212 + leap then 6
         else if d < 243 + leap then 7
         else if d < 273 + leap then 8
         else if d < 304 + leap then 9
         else if d < 334 + leap then 10
         else 11)"

definition DateFromTime :: "int \<Rightarrow> int" where
  "DateFromTime t =
     DayWithinYear t - month_start (MonthFromTime t) (InLeapYear t) + 1"

definition HourFromTime :: "int \<Rightarrow> int" where
  "HourFromTime t = (t div msPerHour) mod 24"

definition MinFromTime :: "int \<Rightarrow> int" where
  "MinFromTime t = (t div msPerMinute) mod 60"

definition SecFromTime :: "int \<Rightarrow> int" where
  "SecFromTime t = (t div msPerSecond) mod 60"

definition msFromTime :: "int \<Rightarrow> int" where
  "msFromTime t = t mod msPerSecond"

definition MakeTime :: "int \<Rightarrow> int \<Rightarrow> int \<Rightarrow> int \<Rightarrow> int" where
  "MakeTime hour minute sec ms =
     hour * msPerHour + minute * msPerMinute + sec * msPerSecond + ms"

text \<open>
  \<^verbatim>\<open>MakeDay(year, month, date)\<close> with \<open>month\<close> counted from 0: the day number of the
  first of that month, plus \<open>date - 1\<close>.
\<close>

definition MakeDay :: "int \<Rightarrow> int \<Rightarrow> int \<Rightarrow> int" where
  "MakeDay year month date =
     (let ym = year + month div 12; mn = month mod 12
      in DayFromYear ym + month_start mn (if DaysInYear ym = 366 then 1 else 0) + date - 1)"

definition MakeDate :: "int \<Rightarrow> int \<Rightarrow> int" where
  "MakeDate day time = day * msPerDay + time"

text \<open>\<^verbatim>\<open>TimeClip\<close>: a time value further than 10^8 days from the epoch is NaN.\<close>

definition TimeClip :: "int \<Rightarrow> int option" where
  "TimeClip t = (if \<bar>t\<bar> > 8640000000000000 then None else Some t)"

subsection \<open>The environment of the engine\<close>

text \<open>
  What the standard leaves to the implementation or to the machine the browser runs on:
  \<^item> \<open>LocalTZA\<close>: the offset of local time from UTC, in milliseconds, at the local time
    given (\<^verbatim>\<open>LocalTZA(t, false)\<close>; it varies with daylight saving time);
  \<^item> \<open>legacy_parse\<close>: what \<^verbatim>\<open>Date.parse\<close> returns on a string that is not a valid
    instance of the standard's Date Time String Format ("the function may fall back to any
    implementation-specific heuristics"), \<open>None\<close> for NaN. The form
    \<^verbatim>\<open>YYYY-MM-DD HH:mm:ss\<close>, with a space, in which Frappe keeps a Datetime field,
    is such a string;
  \<^item> \<open>translate\<close>: Frappe's \<^verbatim>\<open>__()\<close>, the translation of a message into the
    language of the user.
\<close>

record js_env =
  LocalTZA :: "int \<Rightarrow> int"
  legacy_parse :: "string \<Rightarrow> int option"
  translate :: "string \<Rightarrow> string"

text \<open>\<^verbatim>\<open>UTC(t)\<close>: the time value of the local time \<open>t\<close>.\<close>

definition UTC :: "js_env \<Rightarrow> int \<Rightarrow> int" where
  "UTC env t = t - LocalTZA env t"

subsection \<open>Decimal digits\<close>

definition is_digit :: "char \<Rightarrow> bool" where
  "is_digit c = ((48::int) \<le> of_char c \<and> (of_char c::int) \<le> 57)"

definition digit_value :: "char \<Rightarrow> int" where
  "digit_value c = of_char c - 48"

definition digit_char :: "int \<Rightarrow> char" where
  "digit_char d = char_of (48 + d)"

text \<open>\<open>pad k n\<close>: the last \<open>k\<close> decimal digits of \<open>n\<close>, with leading zeros.\<close>

fun pad :: "nat \<Rightarrow> int \<Rightarrow> string" where
  "pad 0 n = []"
| "pad (Suc k) n = pad k (n div 10) @ [digit_char (n mod 10)]"

text \<open>\<open>read_digits k acc s\<close>: exactly \<open>k\<close> decimal digits at the head of \<open>s\<close>.\<close>

fun read_digits :: "nat \<Rightarrow> int \<Rightarrow> string \<Rightarrow> (int \<times> string) option" where
  "read_digits 0 acc s = Some (acc, s)"
| "read_digits (Suc k) acc [] = None"
| "read_digits (Suc k) acc (c # s) =
     (if is_digit c then read_digits k (10 * acc + digit_value c) s else None)"

text \<open>A separator character followed by exactly \<open>k\<close> digits.\<close>

definition read_sep :: "char \<Rightarrow> nat \<Rightarrow> string \<Rightarrow> (int \<times> string) option" where
  "read_sep sep k s =
     (case s of [] \<Rightarrow> None | c # r \<Rightarrow> if c = sep then read_digits k 0 r else None)"

subsection \<open>\<^verbatim>\<open>Date.prototype.toISOString\<close> (ECMA-262 21.4.4.36)\<close>

text \<open>
  The year is written with four digits from 0 to 9999 and as an expanded year, a sign and
  six digits, outside that range.
\<close>

definition year_string :: "int \<Rightarrow> string" where
  "year_string y =
     (if 0 \<le> y \<and> y \<le> 9999 then pad 4 y
      else (if y < 0 then ''-'' else ''+'') @ pad 6 \<bar>y\<bar>)"

text \<open>The part of the string before the fraction, shared with the lemmas below.\<close>

definition iso_seconds :: "int \<Rightarrow> string" where
  "iso_seconds t =
     year_string (YearFromTime t) @ ''-'' @ pad 2 (MonthFromTime t + 1) @ ''-'' @
     pad 2 (DateFromTime t) @ ''T'' @ pad 2 (HourFromTime t) @ '':'' @
     pad 2 (MinFromTime t) @ '':'' @ pad 2 (SecFromTime t)"

text \<open>On an invalid date (time value NaN) \<^verbatim>\<open>toISOString\<close> throws a RangeError.\<close>

definition toISOString :: "int option \<Rightarrow> js_error + string" where
  "toISOString tv =
     (case tv of
        None \<Rightarrow> Inl RangeError
      | Some t \<Rightarrow> Inr (iso_seconds t @ ''.'' @ pad 3 (msFromTime t) @ ''Z''))"

subsection \<open>\<^verbatim>\<open>Date.parse\<close> (ECMA-262 21.4.1.32 and 21.4.3.2)\<close>

text \<open>
  The Date Time String Format is \<^verbatim>\<open>YYYY-MM-DDTHH:mm:ss.sssZ\<close>; the date-only forms
  \<^verbatim>\<open>YYYY\<close>, \<^verbatim>\<open>YYYY-MM\<close> and \<^verbatim>\<open>YYYY-MM-DD\<close>; and a date-only form followed by
  \<^verbatim>\<open>THH:mm\<close>, \<^verbatim>\<open>THH:mm:ss\<close> or \<^verbatim>\<open>THH:mm:ss.sss\<close> and then by nothing,
  \<^verbatim>\<open>Z\<close> or \<^verbatim>\<open>+HH:mm\<close> or \<^verbatim>\<open>-HH:mm\<close>. An expanded year is a sign and six
  digits; \<^verbatim>\<open>-000000\<close> is not a year.
\<close>

datatype zone = DateOnly | LocalTime | Offset int

record iso_fields =
  f_year :: int
  f_month :: int
  f_day :: int
  f_hour :: int
  f_minute :: int
  f_second :: int
  f_ms :: int
  f_zone :: zone

definition read_year :: "string \<Rightarrow> (int \<times> string) option" where
  "read_year s =
     (case s of
        [] \<Rightarrow> None
      | c # r \<Rightarrow>
          if c = CHR ''+'' then read_digits 6 0 r
          else if c = CHR ''-'' then
            (case read_digits 6 0 r of
               None \<Rightarrow> None
             | Some (y, r') \<Rightarrow> if y = 0 then None else Some (- y, r'))
          else read_digits 4 0 s)"

definition read_date :: "string \<Rightarrow> ((int \<times> int \<times> int) \<times> string) option" where
  "read_date s =
     (case read_year s of
        None \<Rightarrow> None
      | Some (y, r1) \<Rightarrow>
          (case read_sep CHR ''-'' 2 r1 of
             None \<Rightarrow> Some ((y, 1, 1), r1)
           | Some (m, r2) \<Rightarrow>
               (case read_sep CHR ''-'' 2 r2 of
                  None \<Rightarrow> Some ((y, m, 1), r2)
                | Some (d, r3) \<Rightarrow> Some ((y, m, d), r3))))"

definition read_time :: "string \<Rightarrow> ((int \<times> int \<times> int \<times> int) \<times> string) option" where
  "read_time s =
     (case read_sep CHR ''T'' 2 s of
        None \<Rightarrow> None
      | Some (h, r1) \<Rightarrow>
          (case read_sep CHR '':'' 2 r1 of
             None \<Rightarrow> None
           | Some (mi, r2) \<Rightarrow>
               (case read_sep CHR '':'' 2 r2 of
                  None \<Rightarrow> Some ((h, mi, 0, 0), r2)
                | Some (sec, r3) \<Rightarrow>
                    (case read_sep CHR ''.'' 3 r3 of
                       None \<Rightarrow> Some ((h, mi, sec, 0), r3)
                     | Some (ms, r4) \<Rightarrow> Some ((h, mi, sec, ms), r4)))))"

text \<open>The UTC offset that ends a date-time form, in minutes; nothing means local time.\<close>

definition read_zone :: "string \<Rightarrow> zone option" where
  "read_zone s =
     (case s of
        [] \<Rightarrow> Some LocalTime
      | c # r \<Rightarrow>
          if c = CHR ''Z'' then (if r = [] then Some (Offset 0) else None)
          else if c = CHR ''+'' \<or> c = CHR ''-'' then
            (case read_digits 2 0 r of
               None \<Rightarrow> None
             | Some (h, r1) \<Rightarrow>
                 (case read_sep CHR '':'' 2 r1 of
                    None \<Rightarrow> None
                  | Some (mi, r2) \<Rightarrow>
                      if r2 = [] \<and> h \<le> 23 \<and> mi \<le> 59
                      then Some (Offset ((if c = CHR ''-'' then - 1 else 1) * (h * 60 + mi)))
                      else None))
          else None)"

definition read_iso :: "string \<Rightarrow> iso_fields option" where
  "read_iso s =
     (case read_date s of
        None \<Rightarrow> None
      | Some ((y, m, d), r) \<Rightarrow>
          if r = [] then
            Some \<lparr>f_year = y, f_month = m, f_day = d, f_hour = 0, f_minute = 0,
                  f_second = 0, f_ms = 0, f_zone = DateOnly\<rparr>
          else
            (case read_time r of
               None \<Rightarrow> None
             | Some ((h, mi, sec, ms), r') \<Rightarrow>
                 (case read_zone r' of
                    None \<Rightarrow> None
                  | Some z \<Rightarrow>
                      Some \<lparr>f_year = y, f_month = m, f_day = d, f_hour = h, f_minute = mi,
                            f_second = sec, f_ms = ms, f_zone = z\<rparr>)))"

text \<open>
  The elements are in bounds: the month from 01 to 12, the day from 01 to the last day
  of that month, the time from 00:00:00 to 23:59:59, or 24:00:00 for the end of the day.
\<close>

definition DaysInMonth :: "int \<Rightarrow> int \<Rightarrow> int" where
  "DaysInMonth y m =
     (let leap = (if DaysInYear y = 366 then 1 else 0)
      in month_start m leap - month_start (m - 1) leap)"

definition in_bounds :: "iso_fields \<Rightarrow> bool" where
  "in_bounds f =
     (1 \<le> f_month f \<and> f_month f \<le> 12 \<and>
      1 \<le> f_day f \<and> f_day f \<le> DaysInMonth (f_year f) (f_month f) \<and>
      f_minute f \<le> 59 \<and> f_second f \<le> 59 \<and>
      (f_hour f \<le> 23 \<or>
       (f_hour f = 24 \<and> f_minute f = 0 \<and> f_second f = 0 \<and> f_ms f = 0)))"

text \<open>
  The time value of the fields. Without an offset a date-only form is UTC and a date-time
  form is local time.
\<close>

definition fields_value :: "iso_fields \<Rightarrow> int" where
  "fields_value f =
     MakeDate (MakeDay (f_year f) (f_month f - 1) (f_day f))
              (MakeTime (f_hour f) (f_minute f) (f_second f) (f_ms f))"

definition fields_time :: "js_env \<Rightarrow> iso_fields \<Rightarrow> int option" where
  "fields_time env f =
     (case f_zone f of
        DateOnly \<Rightarrow> TimeClip (fields_value f)
      | Offset off \<Rightarrow> TimeClip (fields_value f - off * msPerMinute)
      | LocalTime \<Rightarrow> TimeClip (UTC env (fields_value f)))"

text \<open>
  \<^verbatim>\<open>Date.parse(s)\<close>. Only a valid instance of the format has the value the standard
  gives; every other string, also one that has the shape of the format and an element out
  of bounds (engines differ on \<^verbatim>\<open>2024-02-30\<close>), is left to the engine.
\<close>

definition Date_parse :: "js_env \<Rightarrow> string \<Rightarrow> int option" where
  "Date_parse env s =
     (case read_iso s of
        None \<Rightarrow> legacy_parse env s
      | Some f \<Rightarrow> if in_bounds f then fields_time env f else legacy_parse env s)"

text \<open>
  \<^verbatim>\<open>new Date(v)\<close> on the value of a field, as the time value of the new object: a
  string is parsed, \<^verbatim>\<open>undefined\<close> is NaN and \<^verbatim>\<open>null\<close> is 0, and the constructor
  passes the number through \<^verbatim>\<open>TimeClip\<close>.
\<close>

fun new_Date :: "js_env \<Rightarrow> field_value \<Rightarrow> int option" where
  "new_Date env Undefined = None"
| "new_Date env Null = TimeClip 0"
| "new_Date env (Str s) = (case Date_parse env s of None \<Rightarrow> None | Some tv \<Rightarrow> TimeClip tv)"

section \<open>The handlers\<close>

subsection \<open>Timestamp normalisation\<close>

text \<open>
  \<^verbatim>\<open>s.split('.')[0]\<close>: the part of \<open>s\<close> before its first full stop, all of \<open>s\<close>
  when it has none.
\<close>

definition split_dot_first :: "string \<Rightarrow> string" where
  "split_dot_first s = takeWhile (\<lambda>c. c \<noteq> CHR ''.'') s"

text \<open>
  \<^verbatim>\<open>formatToISO8601\<close>, the same in both files. The result \<open>None\<close> is
  \<^verbatim>\<open>null\<close>; \<open>Inl\<close> is the exception that \<^verbatim>\<open>toISOString\<close> throws, which
  nothing in the function catches.
\<close>

definition formatToISO8601 :: "js_env \<Rightarrow> field_value \<Rightarrow> js_error + string option" where
  "formatToISO8601 env dateString =
     (if falsy_field dateString then Inr None
      else
        (case toISOString (new_Date env dateString) of
           Inl e \<Rightarrow> Inl e
         | Inr s \<Rightarrow> Inr (Some (split_dot_first s @ ''Z''))))"

text \<open>A value in a template literal: \<^verbatim>\<open>null\<close> is printed as the word.\<close>

definition template_text :: "string option \<Rightarrow> string" where
  "template_text v = (case v of None \<Rightarrow> ''null'' | Some s \<Rightarrow> s)"

subsection \<open>What a handler does: a trace of calls into the framework\<close>

text \<open>
  A handler returns nothing; what it does is the sequence of its calls to the console,
  to the overlay (\<^verbatim>\<open>frappe.dom.freeze\<close>, \<^verbatim>\<open>frappe.dom.unfreeze\<close>), to
  \<^verbatim>\<open>frappe.call\<close> and to \<^verbatim>\<open>frappe.msgprint\<close>.
\<close>

record notice =
  title :: string
  msg :: string
  indicator :: string

text \<open>
  The options object given to \<^verbatim>\<open>frappe.call\<close>, key by key in the order of the
  source. The arguments are strings or \<^verbatim>\<open>null\<close> (\<open>None\<close>).
\<close>

datatype option_value =
    OStr string
  | OArgs "(string \<times> string option) list"
  | OFunction

type_synonym call_options = "(string \<times> option_value) list"

datatype event =
    ConsoleLog "js_value list"
  | ConsoleError "js_value list"
  | Freeze string
  | Unfreeze
  | Call call_options
  | Msgprint notice

text \<open>
  The form: the handlers read the two fields \<^verbatim>\<open>frm.doc.from_date\<close> and
  \<^verbatim>\<open>frm.doc.to_date\<close>.
\<close>

record form_doc =
  from_date :: field_value
  to_date :: field_value

record form =
  doc :: form_doc

text \<open>
  The response object that \<^verbatim>\<open>frappe.call\<close> hands to \<^verbatim>\<open>callback\<close>; an absent
  \<^verbatim>\<open>message\<close> reads as \<^verbatim>\<open>undefined\<close>. The transport ends a call in one of two
  ways: it resolves and runs \<^verbatim>\<open>callback\<close> with the response, or it is rejected and
  runs \<^verbatim>\<open>error\<close>, when the options have one, with the failure detail.
\<close>

record response =
  message :: js_value

datatype rpc_outcome = Resolved response | Rejected js_value

definition sync_method :: string where
  "sync_method = ''amazon_integration.amazon_integration.py.amazon.sync_amazon_vendor_orders''"

subsection \<open>\<^verbatim>\<open>amazon_settings.js\<close>: the form "Amazon Settings"\<close>

definition load_sync_callback :: "js_env \<Rightarrow> response \<Rightarrow> event list" where
  "load_sync_callback env res =
     Unfreeze #
     (if truthy (message res) \<and> isArray (message res) \<and>
         (case js_length (message res) of None \<Rightarrow> False | Some n \<Rightarrow> 0 < n)
      then
        [Msgprint \<lparr>title = translate env ''Success'',
                   msg = translate env ''Amazon orders synced successfully.'',
                   indicator = ''green''\<rparr>,
         ConsoleLog [JStr ''Response:'', message res]]
      else
        [Msgprint \<lparr>title = translate env ''Information'',
                   msg = translate env ''No new orders were found to sync.'',
                   indicator = ''yellow''\<rparr>])"

definition load_sync_error :: "js_env \<Rightarrow> js_value \<Rightarrow> event list" where
  "load_sync_error env err =
     [Unfreeze,
      ConsoleError [JStr ''Error syncing orders:'', err],
      Msgprint \<lparr>title = translate env ''Error'',
                msg = translate env
                  ''Failed to sync orders. Please try again or contact support if the issue persists.'',
                indicator = ''red''\<rparr>]"

text \<open>
  One invocation of the handler together with the end of the call it issues. An
  exception of the normalisation leaves the handler before anything is logged.
\<close>

definition load_sync :: "js_env \<Rightarrow> form \<Rightarrow> rpc_outcome \<Rightarrow> js_error + event list" where
  "load_sync env frm outcome =
     (case formatToISO8601 env (from_date (doc frm)) of
        Inl e \<Rightarrow> Inl e
      | Inr created_after \<Rightarrow>
          (case formatToISO8601 env (to_date (doc frm)) of
             Inl e \<Rightarrow> Inl e
           | Inr created_before \<Rightarrow>
               Inr ([ConsoleLog [JStr (''From Date (ISO): '' @ template_text created_after)],
                     ConsoleLog [JStr (''To Date (ISO): '' @ template_text created_before)],
                     Freeze ''Fetching orders from Amazon...'',
                     Call [(''method'', OStr sync_method),
                           (''args'', OArgs [(''created_after'', created_after),
                                             (''created_before'', created_before)]),
                           (''callback'', OFunction),
                           (''error'', OFunction)]] @
                    (case outcome of
                       Resolved res \<Rightarrow> load_sync_callback env res
                     | Rejected err \<Rightarrow> load_sync_error env err))))"

subsection \<open>The second file: the form "Amazon API Settings"\<close>

text \<open>
  This handler shows no overlay, tests the message for truthiness only, and gives
  \<^verbatim>\<open>frappe.call\<close> no \<^verbatim>\<open>error\<close> function: when the call is rejected, no code of
  the handler runs.
\<close>

definition api_load_sync_callback :: "js_env \<Rightarrow> response \<Rightarrow> event list" where
  "api_load_sync_callback env res =
     (if truthy (message res)
      then
        [Msgprint \<lparr>title = translate env ''Success'',
                   msg = translate env ''Orders synced successfully.'',
                   indicator = ''green''\<rparr>,
         ConsoleLog [JStr ''Response:'', message res]]
      else
        [Msgprint \<lparr>title = translate env ''Error'',
                   msg = translate env ''No orders were synced.'',
                   indicator = ''red''\<rparr>])"

definition api_load_sync :: "js_env \<Rightarrow> form \<Rightarrow> rpc_outcome \<Rightarrow> js_error + event list" where
  "api_load_sync env frm outcome =
     (case formatToISO8601 env (from_date (doc frm)) of
        Inl e \<Rightarrow> Inl e
      | Inr created_after \<Rightarrow>
          (case formatToISO8601 env (to_date (doc frm)) of
             Inl e \<Rightarrow> Inl e
           | Inr created_before \<Rightarrow>
               Inr ([ConsoleLog [JStr (''From Date (ISO): '' @ template_text created_after)],
                     ConsoleLog [JStr (''From Date (ISO): '' @ template_text created_before)],
                     Call [(''method'', OStr sync_method),
                           (''args'', OArgs [(''created_after'', created_after),
                                             (''created_before'', created_before)]),
                           (''callback'', OFunction)]] @
                    (case outcome of
                       Resolved res \<Rightarrow> api_load_sync_callback env res
                     | Rejected err \<Rightarrow> []))))"

section \<open>The vocabulary of the specification\<close>

subsection \<open>Notices, calls and the overlay in a trace\<close>

text \<open>
  The three variants of a notice are told apart by the indicator colour, which, unlike
  the title and the text, does not pass through the translation.
\<close>

datatype variant = Success | Information | Error | Other

definition variant_of :: "notice \<Rightarrow> variant" where
  "variant_of n =
     (if indicator n = ''green'' then Success
      else if indicator n = ''yellow'' then Information
      else if indicator n = ''red'' then Error
      else Other)"

fun notice_of :: "event \<Rightarrow> notice option" where
  "notice_of (Msgprint n) = Some n"
| "notice_of e = None"

fun call_of :: "event \<Rightarrow> call_options option" where
  "call_of (Call opts) = Some opts"
| "call_of e = None"

fun is_console :: "event \<Rightarrow> bool" where
  "is_console (ConsoleLog vs) = True"
| "is_console (ConsoleError vs) = True"
| "is_console e = False"

text \<open>The notices rendered, the remote calls issued and the calls into the user
  interface, each in the order of the trace.\<close>

definition notices :: "event list \<Rightarrow> notice list" where
  "notices trace = List.map_filter notice_of trace"

definition rendered :: "event list \<Rightarrow> variant list" where
  "rendered trace = map variant_of (notices trace)"

definition calls :: "event list \<Rightarrow> call_options list" where
  "calls trace = List.map_filter call_of trace"

definition ui_events :: "event list \<Rightarrow> event list" where
  "ui_events trace = filter (\<lambda>e. \<not> is_console e) trace"

text \<open>The arguments passed with each remote call.\<close>

definition args_of :: "call_options \<Rightarrow> (string \<times> string option) list" where
  "args_of opts = (case map_of opts ''args'' of Some (OArgs kvs) \<Rightarrow> kvs | _ \<Rightarrow> [])"

definition passed :: "event list \<Rightarrow> (string \<times> string option) list list" where
  "passed trace = map args_of (calls trace)"

text \<open>
  The two sides of the result of an invocation: the exception that left the handler, if
  any, and the trace. The handlers throw, if at all, in the normalisation, before their
  first call into the framework, so an invocation that throws has the empty trace.
\<close>

definition thrown :: "js_error + event list \<Rightarrow> js_error option" where
  "thrown r = (case r of Inl e \<Rightarrow> Some e | Inr trace \<Rightarrow> None)"

definition events :: "js_error + event list \<Rightarrow> event list" where
  "events r = (case r of Inl e \<Rightarrow> [] | Inr trace \<Rightarrow> trace)"

text \<open>
  A field that the normalisation accepts: it is absent or empty, or the engine parses it
  to a valid date.
\<close>

definition valid_input :: "js_env \<Rightarrow> field_value \<Rightarrow> bool" where
  "valid_input env d = (falsy_field d \<or> new_Date env d \<noteq> None)"

text \<open>
  The discipline of the busy overlay, read along a trace with the state of the overlay:
  a remote call is issued only while the overlay is shown, the overlay is cleared only
  while it is shown, a notice is rendered only while it is not shown, and it is not shown
  at the end.
\<close>

fun overlay_discipline :: "bool \<Rightarrow> event list \<Rightarrow> bool" where
  "overlay_discipline shown [] = (\<not> shown)"
| "overlay_discipline shown (Freeze m # es) = overlay_discipline True es"
| "overlay_discipline shown (Unfreeze # es) = (shown \<and> overlay_discipline False es)"
| "overlay_discipline shown (Call opts # es) = (shown \<and> overlay_discipline shown es)"
| "overlay_discipline shown (Msgprint n # es) = (\<not> shown \<and> overlay_discipline shown es)"
| "overlay_discipline shown (ConsoleLog vs # es) = overlay_discipline shown es"
| "overlay_discipline shown (ConsoleError vs # es) = overlay_discipline shown es"

subsection \<open>The shape of a normalised timestamp\<close>

text \<open>
  \<open>matches p s\<close>: the string \<open>s\<close> has the shape \<open>p\<close>, in which \<open>d\<close> stands for a
  decimal digit and every other character for itself.
\<close>

fun matches :: "string \<Rightarrow> string \<Rightarrow> bool" where
  "matches [] [] = True"
| "matches (p # ps) (c # cs) = ((if p = CHR ''d'' then is_digit c else c = p) \<and> matches ps cs)"
| "matches [] (c # cs) = False"
| "matches (p # ps) [] = False"

text \<open>\<^verbatim>\<open>YYYY-MM-DDTHH:mm:ssZ\<close>.\<close>

definition iso_pattern :: string where
  "iso_pattern = ''dddd-dd-ddTdd:dd:ddZ''"

text \<open>
  The reading the specification gives for every input: the elements as a local date and
  time, converted to UTC.
\<close>

definition local_reading :: "js_env \<Rightarrow> string \<Rightarrow> int option" where
  "local_reading env s =
     (case read_iso s of
        None \<Rightarrow> legacy_parse env s
      | Some f \<Rightarrow> if in_bounds f then TimeClip (UTC env (fields_value f)) else legacy_parse env s)"

subsection \<open>Two engines\<close>

text \<open>
  A sample engine in a time zone with the fixed offset \<open>tz\<close> (in milliseconds). It
  reads the form with a space between date and time as the form with \<^verbatim>\<open>T\<close>, as V8,
  SpiderMonkey and JavaScriptCore do; it gives NaN for every other string outside the
  format; and its \<^verbatim>\<open>__()\<close> leaves a message as it is.
\<close>

definition space_as_T :: "string \<Rightarrow> string" where
  "space_as_T s = map (\<lambda>c. if c = CHR '' '' then CHR ''T'' else c) s"

definition legacy_space :: "int \<Rightarrow> string \<Rightarrow> int option" where
  "legacy_space tz s =
     (case read_iso (space_as_T s) of
        None \<Rightarrow> None
      | Some f \<Rightarrow>
          if in_bounds f
          then fields_time \<lparr>LocalTZA = (\<lambda>t. tz), legacy_parse = (\<lambda>s. None),
                            translate = (\<lambda>s. s)\<rparr> f
          else None)"

definition engine :: "int \<Rightarrow> js_env" where
  "engine tz = \<lparr>LocalTZA = (\<lambda>t. tz), legacy_parse = legacy_space tz, translate = (\<lambda>s. s)\<rparr>"

text \<open>Coordinated universal time, and Indian standard time, five and a half hours ahead.\<close>

definition engine_utc :: js_env where
  "engine_utc = engine 0"

definition engine_ist :: js_env where
  "engine_ist = engine 19800000"

text \<open>A form with both dates unset, and the form of the scenario of the specification.\<close>

definition unset_form :: form where
  "unset_form = \<lparr>doc = \<lparr>from_date = Null, to_date = Null\<rparr>\<rparr>"

definition scenario_form :: form where
  "scenario_form = \<lparr>doc = \<lparr>from_date = Str ''2024-01-15 10:30:00'', to_date = Null\<rparr>\<rparr>"

section \<open>Traces of the handlers\<close>

lemma notices_simps:
  "notices [] = []"
  "notices (Msgprint n # es) = n # notices es"
  "notices (ConsoleLog vs # es) = notices es"
  "notices (ConsoleError vs # es) = notices es"
  "notices (Freeze m # es) = notices es"
  "notices (Unfreeze # es) = notices es"
  "notices (Call opts # es) = notices es"
  by (simp_all add: notices_def List.map_filter_simps)

lemma calls_simps:
  "calls [] = []"
  "calls (Call opts # es) = opts # calls es"
  "calls (ConsoleLog vs # es) = calls es"
  "calls (ConsoleError vs # es) = calls es"
  "calls (Freeze m # es) = calls es"
  "calls (Unfreeze # es) = calls es"
  "calls (Msgprint n # es) = calls es"
  by (simp_all add: calls_def List.map_filter_simps)

lemma formatToISO8601_cases:
  "formatToISO8601 env d =
     (if falsy_field d then Inr None
      else case new_Date env d of
             None \<Rightarrow> Inl RangeError
           | Some t \<Rightarrow> Inr (Some (split_dot_first (iso_seconds t @ ''.'' @ pad 3 (msFromTime t) @ ''Z'') @ ''Z'')))"
  by (simp add: formatToISO8601_def toISOString_def split: option.splits)

lemma js_error_unique: "(e::js_error) = RangeError"
  by (cases e) simp

lemma formatToISO8601_valid:
  "valid_input env d \<Longrightarrow> \<exists>v. formatToISO8601 env d = Inr v"
  by (auto simp: formatToISO8601_cases valid_input_def split: option.splits)

lemma formatToISO8601_invalid:
  "\<not> valid_input env d \<Longrightarrow> formatToISO8601 env d = Inl RangeError"
  by (auto simp: formatToISO8601_cases valid_input_def split: option.splits)

lemma formatToISO8601_Inl_iff:
  "formatToISO8601 env d = Inl e \<longleftrightarrow> \<not> valid_input env d"
  using formatToISO8601_valid[of env d] formatToISO8601_invalid[of env d] js_error_unique[of e]
  by auto

text \<open>The trace of the handler of "Amazon Settings" when the normalisation returns.\<close>

lemma load_sync_returns:
  assumes "formatToISO8601 env (from_date (doc frm)) = Inr a"
    and "formatToISO8601 env (to_date (doc frm)) = Inr b"
  shows "load_sync env frm outcome =
           Inr ([ConsoleLog [JStr (''From Date (ISO): '' @ template_text a)],
                 ConsoleLog [JStr (''To Date (ISO): '' @ template_text b)],
                 Freeze ''Fetching orders from Amazon...'',
                 Call [(''method'', OStr sync_method),
                       (''args'', OArgs [(''created_after'', a), (''created_before'', b)]),
                       (''callback'', OFunction),
                       (''error'', OFunction)]] @
                (case outcome of
                   Resolved res \<Rightarrow> load_sync_callback env res
                 | Rejected err \<Rightarrow> load_sync_error env err))"
  using assms by (simp add: load_sync_def)

lemma load_sync_throws:
  assumes "\<not> valid_input env (from_date (doc frm)) \<or> \<not> valid_input env (to_date (doc frm))"
  shows "load_sync env frm outcome = Inl RangeError"
  using assms js_error_unique
  by (auto simp: load_sync_def formatToISO8601_Inl_iff split: sum.splits
      dest: formatToISO8601_invalid)

lemma api_load_sync_returns:
  assumes "formatToISO8601 env (from_date (doc frm)) = Inr a"
    and "formatToISO8601 env (to_date (doc frm)) = Inr b"
  shows "api_load_sync env frm outcome =
           Inr ([ConsoleLog [JStr (''From Date (ISO): '' @ template_text a)],
                 ConsoleLog [JStr (''From Date (ISO): '' @ template_text b)],
                 Call [(''method'', OStr sync_method),
                       (''args'', OArgs [(''created_after'', a), (''created_before'', b)]),
                       (''callback'', OFunction)]] @
                (case outcome of
                   Resolved res \<Rightarrow> api_load_sync_callback env res
                 | Rejected err \<Rightarrow> []))"
  using assms by (simp add: api_load_sync_def)

lemma api_load_sync_throws:
  assumes "\<not> valid_input env (from_date (doc frm)) \<or> \<not> valid_input env (to_date (doc frm))"
  shows "api_load_sync env frm outcome = Inl RangeError"
  using assms js_error_unique
  by (auto simp: api_load_sync_def formatToISO8601_Inl_iff split: sum.splits
      dest: formatToISO8601_invalid)

text \<open>An invocation that does not throw is one whose two fields are accepted.\<close>

lemma not_thrown_load_sync:
  assumes "thrown (load_sync env frm outcome) = None"
  obtains a b where "formatToISO8601 env (from_date (doc frm)) = Inr a"
    and "formatToISO8601 env (to_date (doc frm)) = Inr b"
proof -
  have "valid_input env (from_date (doc frm)) \<and> valid_input env (to_date (doc frm))"
    using assms load_sync_throws[of env frm outcome] by (cases "load_sync env frm outcome") (auto simp: thrown_def)
  then show ?thesis
    using formatToISO8601_valid that by blast
qed

lemma not_thrown_api_load_sync:
  assumes "thrown (api_load_sync env frm outcome) = None"
  obtains a b where "formatToISO8601 env (from_date (doc frm)) = Inr a"
    and "formatToISO8601 env (to_date (doc frm)) = Inr b"
proof -
  have "valid_input env (from_date (doc frm)) \<and> valid_input env (to_date (doc frm))"
    using assms api_load_sync_throws[of env frm outcome] by (cases "api_load_sync env frm outcome") (auto simp: thrown_def)
  then show ?thesis
    using formatToISO8601_valid that by blast
qed

lemma rendered_callback:
  "rendered (load_sync_callback env res) =
     (if truthy (message res) \<and> isArray (message res) \<and>
         (case js_length (message res) of None \<Rightarrow> False | Some n \<Rightarrow> 0 < n)
      then [Success] else [Information])"
  by (simp add: rendered_def load_sync_callback_def notices_simps variant_of_def)

lemma rendered_api_callback:
  "rendered (api_load_sync_callback env res) =
     (if truthy (message res) then [Success] else [Error])"
  by (simp add: rendered_def api_load_sync_callback_def notices_simps variant_of_def)

lemma rendered_resolved:
  assumes "thrown (load_sync env frm (Resolved res)) = None"
  shows "rendered (events (load_sync env frm (Resolved res))) = rendered (load_sync_callback env res)"
proof -
  obtain a b where "formatToISO8601 env (from_date (doc frm)) = Inr a"
    and "formatToISO8601 env (to_date (doc frm)) = Inr b"
    using assms by (rule not_thrown_load_sync)
  then show ?thesis
    by (simp add: load_sync_returns events_def rendered_def notices_simps)
qed

lemma rendered_api_resolved:
  assumes "thrown (api_load_sync env frm (Resolved res)) = None"
  shows "rendered (events (api_load_sync env frm (Resolved res))) =
         rendered (api_load_sync_callback env res)"
proof -
  obtain a b where "formatToISO8601 env (from_date (doc frm)) = Inr a"
    and "formatToISO8601 env (to_date (doc frm)) = Inr b"
    using assms by (rule not_thrown_api_load_sync)
  then show ?thesis
    by (simp add: api_load_sync_returns events_def rendered_def notices_simps)
qed

lemma load_sync_events:
  assumes "thrown (load_sync env frm outcome) = None"
  shows "\<exists>a b. formatToISO8601 env (from_date (doc frm)) = Inr a \<and>
     formatToISO8601 env (to_date (doc frm)) = Inr b \<and>
     events (load_sync env frm outcome) =
       [ConsoleLog [JStr (''From Date (ISO): '' @ template_text a)],
        ConsoleLog [JStr (''To Date (ISO): '' @ template_text b)],
        Freeze ''Fetching orders from Amazon...'',
        Call [(''method'', OStr sync_method),
              (''args'', OArgs [(''created_after'', a), (''created_before'', b)]),
              (''callback'', OFunction),
              (''error'', OFunction)]] @
       (case outcome of
          Resolved res \<Rightarrow> load_sync_callback env res
        | Rejected err \<Rightarrow> load_sync_error env err)"
proof -
  obtain a b where ab: "formatToISO8601 env (from_date (doc frm)) = Inr a"
    "formatToISO8601 env (to_date (doc frm)) = Inr b"
    using assms by (rule not_thrown_load_sync)
  then show ?thesis
    by (simp add: load_sync_returns events_def)
qed

lemma api_load_sync_events:
  assumes "thrown (api_load_sync env frm outcome) = None"
  shows "\<exists>a b. formatToISO8601 env (from_date (doc frm)) = Inr a \<and>
     formatToISO8601 env (to_date (doc frm)) = Inr b \<and>
     events (api_load_sync env frm outcome) =
       [ConsoleLog [JStr (''From Date (ISO): '' @ template_text a)],
        ConsoleLog [JStr (''From Date (ISO): '' @ template_text b)],
        Call [(''method'', OStr sync_method),
              (''args'', OArgs [(''created_after'', a), (''created_before'', b)]),
              (''callback'', OFunction)]] @
       (case outcome of
          Resolved res \<Rightarrow> api_load_sync_callback env res
        | Rejected err \<Rightarrow> [])"
proof -
  obtain a b where ab: "formatToISO8601 env (from_date (doc frm)) = Inr a"
    "formatToISO8601 env (to_date (doc frm)) = Inr b"
    using assms by (rule not_thrown_api_load_sync)
  then show ?thesis
    by (simp add: api_load_sync_returns events_def)
qed

lemma passed_load_sync:
  assumes "formatToISO8601 env (from_date (doc frm)) = Inr a"
    and "formatToISO8601 env (to_date (doc frm)) = Inr b"
  shows "calls (events (load_sync env frm outcome)) =
           [[(''method'', OStr sync_method),
             (''args'', OArgs [(''created_after'', a), (''created_before'', b)]),
             (''callback'', OFunction),
             (''error'', OFunction)]]"
  by (cases outcome)
    (simp_all add: load_sync_returns[OF assms] events_def calls_simps
      load_sync_callback_def load_sync_error_def)

lemma passed_api_load_sync:
  assumes "formatToISO8601 env (from_date (doc frm)) = Inr a"
    and "formatToISO8601 env (to_date (doc frm)) = Inr b"
  shows "calls (events (api_load_sync env frm outcome)) =
           [[(''method'', OStr sync_method),
             (''args'', OArgs [(''created_after'', a), (''created_before'', b)]),
             (''callback'', OFunction)]]"
  by (cases outcome)
    (simp_all add: api_load_sync_returns[OF assms] events_def calls_simps
      api_load_sync_callback_def)

section \<open>The calendar of the standard\<close>

lemma div_bounds:
  fixes x k :: int
  assumes "0 < k"
  shows "k * (x div k) \<le> x" "x \<le> k * (x div k) + (k - 1)"
proof -
  have e: "x = k * (x div k) + x mod k" by simp
  have "0 \<le> x mod k" "x mod k < k" using assms by simp_all
  then show "k * (x div k) \<le> x" and "x \<le> k * (x div k) + (k - 1)" using e by linarith+
qed

lemma div_step:
  fixes x k :: int
  assumes k: "0 < k"
  shows "(x + 1) div k = x div k + (if (x + 1) mod k = 0 then 1 else 0)"
proof -
  have e: "x + 1 = k * (x div k) + (x mod k + 1)" by simp
  have r: "0 \<le> x mod k" "x mod k < k" using k by simp_all
  show ?thesis
  proof (cases "x mod k + 1 < k")
    case True
    have "(x + 1) div k = x div k" "(x + 1) mod k = x mod k + 1"
      using int_div_pos_eq[OF e _ True] int_mod_pos_eq[OF e _ True] r by simp_all
    then show ?thesis using r by simp
  next
    case False
    then have "x mod k + 1 = k" using r by linarith
    with e have "x + 1 = k * (x div k) + k" by simp
    then have e1: "x + 1 = k * (x div k + 1) + 0" by (simp add: algebra_simps)
    have "(x + 1) div k = x div k + 1" "(x + 1) mod k = 0"
      using int_div_pos_eq[OF e1 _ k] int_mod_pos_eq[OF e1 _ k] by simp_all
    then show ?thesis by simp
  qed
qed

lemma mod_shift: "((y::int) - k * n) mod k = y mod k"
  by (metis mod_diff_right_eq mod_mult_self1_is_0 diff_zero)

lemma DayFromYear_upper: "400 * DayFromYear y \<le> 146097 * (y - 1970) + 589"
proof -
  define a where "a = (y - 1969) div 4"
  define b where "b = (y - 1901) div 100"
  define c where "c = (y - 1601) div 400"
  have a: "4 * a \<le> y - 1969" using div_bounds(1)[of 4 "y - 1969"] by (simp add: a_def)
  have b: "y - 1901 \<le> 100 * b + 99" using div_bounds(2)[of 100 "y - 1901"] by (simp add: b_def)
  have c: "400 * c \<le> y - 1601" using div_bounds(1)[of 400 "y - 1601"] by (simp add: c_def)
  have "400 * (365 * (y - 1970) + a - b + c) \<le> 146097 * (y - 1970) + 589"
    using a b c by (simp add: algebra_simps)
  then show ?thesis by (simp add: DayFromYear_def a_def b_def c_def)
qed

lemma DayFromYear_lower: "146097 * (y - 1970) - 506 \<le> 400 * DayFromYear y"
proof -
  define a where "a = (y - 1969) div 4"
  define b where "b = (y - 1901) div 100"
  define c where "c = (y - 1601) div 400"
  have a: "y - 1969 \<le> 4 * a + 3" using div_bounds(2)[of 4 "y - 1969"] by (simp add: a_def)
  have b: "100 * b \<le> y - 1901" using div_bounds(1)[of 100 "y - 1901"] by (simp add: b_def)
  have c: "y - 1601 \<le> 400 * c + 399" using div_bounds(2)[of 400 "y - 1601"] by (simp add: c_def)
  have "146097 * (y - 1970) - 506 \<le> 400 * (365 * (y - 1970) + a - b + c)"
    using a b c by (simp add: algebra_simps)
  then show ?thesis by (simp add: DayFromYear_def a_def b_def c_def)
qed

lemma DayFromYear_Suc: "DayFromYear (y + 1) = DayFromYear y + DaysInYear y"
proof -
  have m4: "(y - 1968) mod 4 = y mod 4" using mod_shift[of y 4 492] by simp
  have m100: "(y - 1900) mod 100 = y mod 100" using mod_shift[of y 100 19] by simp
  have m400: "(y - 1600) mod 400 = y mod 400" using mod_shift[of y 400 4] by simp
  have i1: "y mod 400 = 0 \<Longrightarrow> y mod 100 = 0" using mod_mod_cancel[of 100 400 y] by simp
  have i2: "y mod 100 = 0 \<Longrightarrow> y mod 4 = 0" using mod_mod_cancel[of 4 100 y] by simp
  have a: "(y + 1 - 1969) div 4 = (y - 1969) div 4 + (if y mod 4 = 0 then 1 else 0)"
    using div_step[of 4 "y - 1969"] m4 by (simp add: algebra_simps)
  have b: "(y + 1 - 1901) div 100 = (y - 1901) div 100 + (if y mod 100 = 0 then 1 else 0)"
    using div_step[of 100 "y - 1901"] m100 by (simp add: algebra_simps)
  have c: "(y + 1 - 1601) div 400 = (y - 1601) div 400 + (if y mod 400 = 0 then 1 else 0)"
    using div_step[of 400 "y - 1601"] m400 by (simp add: algebra_simps)
  show ?thesis
    unfolding DayFromYear_def DaysInYear_def a b c
    using i1 i2 by auto
qed

lemma DaysInYear_cases: "DaysInYear y = 365 \<or> DaysInYear y = 366"
  by (simp add: DaysInYear_def)

lemma DayFromYear_less: "DayFromYear y < DayFromYear (y + 1)"
  using DaysInYear_cases[of y] by (auto simp: DayFromYear_Suc)

lemma DayFromYear_mono: "y \<le> y' \<Longrightarrow> DayFromYear y \<le> DayFromYear y'"
proof (induction "nat (y' - y)" arbitrary: y')
  case 0
  then show ?case by simp
next
  case (Suc n)
  then have "n = nat ((y' - 1) - y)" "y \<le> y' - 1" by linarith+
  then have "DayFromYear y \<le> DayFromYear (y' - 1)" using Suc.hyps(1) by blast
  also have "\<dots> < DayFromYear y'" using DayFromYear_less[of "y' - 1"] by simp
  finally show ?case by simp
qed

lemma YearFromDay_bounds:
  "DayFromYear (YearFromDay d) \<le> d" "d < DayFromYear (YearFromDay d + 1)"
proof -
  define q where "q = (400 * d) div 146097"
  have q1: "146097 * q \<le> 400 * d" using div_bounds(1)[of 146097 "400 * d"] by (simp add: q_def)
  have q2: "400 * d \<le> 146097 * q + 146096"
    using div_bounds(2)[of 146097 "400 * d"] by (simp add: q_def)
  have lo: "DayFromYear (1970 + q - 1) \<le> d"
    using DayFromYear_upper[of "1970 + q - 1"] q1 by (simp add: algebra_simps)
  have hi: "d < DayFromYear (1970 + q + 2)"
    using DayFromYear_lower[of "1970 + q + 2"] q2 by (simp add: algebra_simps)
  have e: "YearFromDay d =
     (if d < DayFromYear (1970 + q) then 1970 + q - 1
      else if DayFromYear (1970 + q + 1) \<le> d then 1970 + q + 1 else 1970 + q)"
    by (simp add: YearFromDay_def q_def Let_def)
  show "DayFromYear (YearFromDay d) \<le> d"
    unfolding e using lo by auto
  show "d < DayFromYear (YearFromDay d + 1)"
    unfolding e using hi by (auto simp: algebra_simps)
qed

text \<open>The function computes the year of the standard: the largest whose first day is
  not after the given time.\<close>

lemma YearFromTime_largest:
  "TimeFromYear (YearFromTime t) \<le> t"
  "TimeFromYear y \<le> t \<Longrightarrow> y \<le> YearFromTime t"
proof -
  have d: "86400000 * Day t \<le> t" "t \<le> 86400000 * Day t + 86399999"
    using div_bounds[of 86400000 t] by (simp_all add: Day_def msPerDay_def)
  have "DayFromYear (YearFromTime t) \<le> Day t"
    using YearFromDay_bounds(1)[of "Day t"] by (simp add: YearFromTime_def)
  then show "TimeFromYear (YearFromTime t) \<le> t"
    using d by (simp add: TimeFromYear_def msPerDay_def)
  show "y \<le> YearFromTime t" if "TimeFromYear y \<le> t"
  proof (rule ccontr)
    assume "\<not> y \<le> YearFromTime t"
    then have "YearFromTime t + 1 \<le> y" by simp
    then have "DayFromYear (YearFromTime t + 1) \<le> DayFromYear y"
      by (rule DayFromYear_mono)
    moreover have "Day t < DayFromYear (YearFromTime t + 1)"
      using YearFromDay_bounds(2)[of "Day t"] by (simp add: YearFromTime_def)
    ultimately have "Day t + 1 \<le> DayFromYear y"
      by linarith
    then show False
      using that d by (simp add: TimeFromYear_def msPerDay_def)
  qed
qed

lemma DayWithinYear_bounds:
  "0 \<le> DayWithinYear t" "DayWithinYear t < DaysInYear (YearFromTime t)"
proof -
  have "DayFromYear (YearFromTime t) \<le> Day t"
    using YearFromDay_bounds(1)[of "Day t"] by (simp add: YearFromTime_def)
  then show "0 \<le> DayWithinYear t"
    by (simp add: DayWithinYear_def)
  have "Day t < DayFromYear (YearFromTime t + 1)"
    using YearFromDay_bounds(2)[of "Day t"] by (simp add: YearFromTime_def)
  also have "\<dots> = DayFromYear (YearFromTime t) + DaysInYear (YearFromTime t)"
    by (rule DayFromYear_Suc)
  finally show "DayWithinYear t < DaysInYear (YearFromTime t)"
    by (simp add: DayWithinYear_def)
qed

lemma YearFromDay_range:
  assumes "- 100000000 \<le> d" and "d \<le> 100000000"
  shows "- 271821 \<le> YearFromDay d" "YearFromDay d \<le> 275760"
proof -
  have "146097 * YearFromDay d - 287811596 \<le> 400 * DayFromYear (YearFromDay d)"
    using DayFromYear_lower[of "YearFromDay d"] by (simp add: algebra_simps)
  then show "YearFromDay d \<le> 275760"
    using YearFromDay_bounds(1)[of d] assms by linarith
  have "400 * DayFromYear (YearFromDay d + 1) \<le> 146097 * YearFromDay d - 287664404"
    using DayFromYear_upper[of "YearFromDay d + 1"] by (simp add: algebra_simps)
  then show "- 271821 \<le> YearFromDay d"
    using YearFromDay_bounds(2)[of d] assms by linarith
qed

text \<open>A valid time value lies within 10^8 days of the epoch.\<close>

lemma Day_range:
  assumes "\<bar>t\<bar> \<le> 8640000000000000"
  shows "- 100000000 \<le> Day t" "Day t \<le> 100000000"
proof -
  have d: "86400000 * Day t \<le> t" "t \<le> 86400000 * Day t + 86399999"
    using div_bounds[of 86400000 t] by (simp_all add: Day_def msPerDay_def)
  show "- 100000000 \<le> Day t" using d assms by linarith
  show "Day t \<le> 100000000" using d assms by linarith
qed

lemma YearFromTime_range:
  assumes "\<bar>t\<bar> \<le> 8640000000000000"
  shows "- 271821 \<le> YearFromTime t" "YearFromTime t \<le> 275760"
  using YearFromDay_range[OF Day_range[OF assms]] by (simp_all add: YearFromTime_def)

section \<open>Months and days\<close>

lemma InLeapYear_cases: "InLeapYear t = 0 \<or> InLeapYear t = 1"
  by (simp add: InLeapYear_def)

lemma DaysInYear_InLeapYear: "DaysInYear (YearFromTime t) = 365 + InLeapYear t"
  using DaysInYear_cases[of "YearFromTime t"] by (auto simp: InLeapYear_def)

lemma month_table:
  assumes "0 \<le> d" and "d < 365 + l" and "l = 0 \<or> l = 1"
  defines "m \<equiv> (if d < 31 then 0
         else if d < 59 + l then 1
         else if d < 90 + l then 2
         else if d < 120 + l then 3
         else if d < 151 + l then 4
         else if d < 181 + l then 5
         else if d < 212 + l then 6
         else if d < 243 + l then 7
         else if d < 273 + l then 8
         else if d < 304 + l then 9
         else if d < 334 + l then 10
         else (11::int))"
  shows "0 \<le> m \<and> m \<le> 11 \<and> month_start m l \<le> d \<and> d < month_start (m + 1) l"
  using assms(1-3) unfolding m_def month_start_def by auto

lemma MonthFromTime_bounds:
  "0 \<le> MonthFromTime t" "MonthFromTime t \<le> 11"
  "month_start (MonthFromTime t) (InLeapYear t) \<le> DayWithinYear t"
  "DayWithinYear t < month_start (MonthFromTime t + 1) (InLeapYear t)"
  using month_table[OF DayWithinYear_bounds(1)[of t] _ InLeapYear_cases[of t]]
    DayWithinYear_bounds(2)[of t] DaysInYear_InLeapYear[of t]
  by (simp_all add: MonthFromTime_def Let_def)

lemma DateFromTime_bounds:
  "1 \<le> DateFromTime t"
  "DateFromTime t \<le> DaysInMonth (YearFromTime t) (MonthFromTime t + 1)"
  "DateFromTime t \<le> 31"
proof -
  show "1 \<le> DateFromTime t"
    using MonthFromTime_bounds(3)[of t] by (simp add: DateFromTime_def)
  have l: "(if DaysInYear (YearFromTime t) = 366 then 1 else 0) = InLeapYear t"
    by (simp add: InLeapYear_def)
  show b: "DateFromTime t \<le> DaysInMonth (YearFromTime t) (MonthFromTime t + 1)"
    using MonthFromTime_bounds(4)[of t] by (simp add: DateFromTime_def DaysInMonth_def l Let_def)
  have "DaysInMonth (YearFromTime t) (MonthFromTime t + 1) \<le> 31"
    using MonthFromTime_bounds(1,2)[of t] InLeapYear_cases[of t]
    by (auto simp: DaysInMonth_def l month_start_def Let_def)
  then show "DateFromTime t \<le> 31" using b by linarith
qed

lemma MakeDay_fields:
  "MakeDay (YearFromTime t) (MonthFromTime t) (DateFromTime t) = Day t"
proof -
  have "MonthFromTime t div 12 = 0" "MonthFromTime t mod 12 = MonthFromTime t"
    using MonthFromTime_bounds(1,2)[of t] by simp_all
  then show ?thesis
    by (simp add: MakeDay_def DateFromTime_def DayWithinYear_def InLeapYear_def)
qed

section \<open>The time within the day\<close>

lemma seconds_split:
  fixes s :: int
  shows "86400 * (s div 86400) + 3600 * ((s div 3600) mod 24) + 60 * ((s div 60) mod 60) + s mod 60 = s"
proof -
  have a: "s = 60 * (s div 60) + s mod 60" by simp
  have "(s div 60) div 60 = s div 3600"
    using zdiv_zmult2_eq[of 60 s 60] by simp
  then have b: "s div 60 = 60 * (s div 3600) + (s div 60) mod 60"
    using mult_div_mod_eq[of 60 "s div 60"] by simp
  have "(s div 3600) div 24 = s div 86400"
    using zdiv_zmult2_eq[of 24 s 3600] by simp
  then have c: "s div 3600 = 24 * (s div 86400) + (s div 3600) mod 24"
    using mult_div_mod_eq[of 24 "s div 3600"] by simp
  show ?thesis using a b c by linarith
qed

lemma div_seconds:
  fixes t :: int
  shows "t div 86400000 = (t div 1000) div 86400"
    and "t div 3600000 = (t div 1000) div 3600"
    and "t div 60000 = (t div 1000) div 60"
  using zdiv_zmult2_eq[of 86400 t 1000] zdiv_zmult2_eq[of 3600 t 1000] zdiv_zmult2_eq[of 60 t 1000]
  by simp_all

lemma MakeDate_fields:
  "MakeDate (Day t) (MakeTime (HourFromTime t) (MinFromTime t) (SecFromTime t) 0) = t - t mod 1000"
proof -
  have "1000 * (t div 1000) = t - t mod 1000"
    using mult_div_mod_eq[of 1000 t] by linarith
  then show ?thesis
    using seconds_split[of "t div 1000"]
    by (simp add: MakeDate_def MakeTime_def Day_def HourFromTime_def MinFromTime_def
        SecFromTime_def msPerDay_def msPerHour_def msPerMinute_def msPerSecond_def div_seconds)
qed

lemma time_bounds:
  "0 \<le> HourFromTime t" "HourFromTime t \<le> 23"
  "0 \<le> MinFromTime t" "MinFromTime t \<le> 59"
  "0 \<le> SecFromTime t" "SecFromTime t \<le> 59"
  "0 \<le> msFromTime t" "msFromTime t \<le> 999"
  using pos_mod_bound[of 24 "t div msPerHour"] pos_mod_bound[of 60 "t div msPerMinute"]
    pos_mod_bound[of 60 "t div msPerSecond"] pos_mod_bound[of 1000 t]
  by (simp_all add: HourFromTime_def MinFromTime_def SecFromTime_def msFromTime_def
      msPerSecond_def)

text \<open>The fields above the millisecond depend on the whole second only.\<close>

lemma floor_second_div: "(t - t mod 1000) div 1000 = (t::int) div 1000"
proof -
  have "t - t mod 1000 = 1000 * (t div 1000) + 0"
    using mult_div_mod_eq[of 1000 t] by linarith
  then show ?thesis
    by (rule int_div_pos_eq) simp_all
qed

lemma floor_second_fields:
  "Day (t - t mod 1000) = Day t"
  "HourFromTime (t - t mod 1000) = HourFromTime t"
  "MinFromTime (t - t mod 1000) = MinFromTime t"
  "SecFromTime (t - t mod 1000) = SecFromTime t"
  by (simp_all add: Day_def HourFromTime_def MinFromTime_def SecFromTime_def msPerDay_def
      msPerHour_def msPerMinute_def msPerSecond_def div_seconds floor_second_div)

lemma same_day_fields:
  assumes "Day t' = Day t"
  shows "YearFromTime t' = YearFromTime t" "MonthFromTime t' = MonthFromTime t"
    "DateFromTime t' = DateFromTime t"
proof -
  show y: "YearFromTime t' = YearFromTime t"
    using assms by (simp add: YearFromTime_def)
  then have l: "InLeapYear t' = InLeapYear t" and d: "DayWithinYear t' = DayWithinYear t"
    using assms by (simp_all add: InLeapYear_def DayWithinYear_def)
  then show m: "MonthFromTime t' = MonthFromTime t"
    by (simp add: MonthFromTime_def)
  show "DateFromTime t' = DateFromTime t"
    by (simp add: DateFromTime_def l d m)
qed

section \<open>Digits\<close>

lemma of_char_digit_char:
  assumes "0 \<le> d" "d \<le> 9"
  shows "of_char (digit_char d) = 48 + d"
proof -
  have "of_char (digit_char d) = (48 + d) mod 256"
    unfolding digit_char_def by (rule of_char_of)
  then show ?thesis using assms by simp
qed

lemma digit_char_props:
  assumes "0 \<le> d" "d \<le> 9"
  shows "is_digit (digit_char d)" "digit_value (digit_char d) = d"
    "digit_char d \<noteq> CHR ''.''" "digit_char d \<noteq> CHR ''+''" "digit_char d \<noteq> CHR ''-''"
proof -
  note oc = of_char_digit_char[OF assms]
  show "is_digit (digit_char d)" "digit_value (digit_char d) = d"
    using assms by (simp_all add: is_digit_def digit_value_def oc)
  have ne: "digit_char d \<noteq> c" if "(of_char c :: int) < 48" for c
    using that oc assms by auto
  show "digit_char d \<noteq> CHR ''.''" "digit_char d \<noteq> CHR ''+''" "digit_char d \<noteq> CHR ''-''"
    by (rule ne, simp)+
qed

lemma mod10_digit:
  "is_digit (digit_char (n mod 10))" "digit_value (digit_char (n mod 10)) = n mod 10"
  "digit_char (n mod 10) \<noteq> CHR ''.''" "digit_char (n mod 10) \<noteq> CHR ''+''"
  "digit_char (n mod 10) \<noteq> CHR ''-''"
  using digit_char_props[of "n mod 10"] pos_mod_bound[of 10 n] by simp_all

lemma length_pad: "length (pad k n) = k"
  by (induction k arbitrary: n) simp_all

lemma pad_digits: "c \<in> set (pad k n) \<Longrightarrow> is_digit c \<and> c \<noteq> CHR ''.''"
  by (induction k arbitrary: n) (auto simp: mod10_digit)

lemma read_digits_snoc:
  "read_digits (Suc k) acc s =
     (case read_digits k acc s of
        None \<Rightarrow> None
      | Some (a, r) \<Rightarrow>
          (case r of [] \<Rightarrow> None
           | c # r' \<Rightarrow> if is_digit c then Some (10 * a + digit_value c, r') else None))"
proof (induction k arbitrary: acc s)
  case 0
  then show ?case by (cases s) simp_all
next
  case (Suc k)
  show ?case
  proof (cases s)
    case Nil
    then show ?thesis by simp
  next
    case (Cons c s')
    then show ?thesis using Suc.IH[of "10 * acc + digit_value c" s'] by simp
  qed
qed

lemma read_digits_pad:
  "0 \<le> n \<Longrightarrow> n < 10 ^ k \<Longrightarrow> read_digits k acc (pad k n @ r) = Some (acc * 10 ^ k + n, r)"
proof (induction k arbitrary: n r)
  case 0
  then show ?case by simp
next
  case (Suc k)
  have "n < 10 * 10 ^ k" using Suc.prems(2) by simp
  then have d: "0 \<le> n div 10" "n div 10 < 10 ^ k"
    using Suc.prems(1) div_bounds[of 10 n] by linarith+
  have "read_digits k acc (pad k (n div 10) @ (digit_char (n mod 10) # r)) =
          Some (acc * 10 ^ k + n div 10, digit_char (n mod 10) # r)"
    using Suc.IH[OF d] by simp
  then show ?case
    by (simp add: read_digits_snoc mod10_digit algebra_simps del: read_digits.simps)
qed


section \<open>Reading back what toISOString writes\<close>

lemma read_sep_pad:
  "0 \<le> n \<Longrightarrow> n < 10 ^ k \<Longrightarrow> read_sep c k (c # pad k n @ r) = Some (n, r)"
  by (simp add: read_sep_def read_digits_pad)

lemma pad_Suc_Cons: "\<exists>c cs. pad (Suc k) n = c # cs \<and> is_digit c \<and> c \<noteq> CHR ''+'' \<and> c \<noteq> CHR ''-''"
proof (induction k arbitrary: n)
  case 0
  then show ?case by (simp add: mod10_digit)
next
  case (Suc k)
  obtain c cs where "pad (Suc k) (n div 10) = c # cs"
    "is_digit c \<and> c \<noteq> CHR ''+'' \<and> c \<noteq> CHR ''-''"
    using Suc[of "n div 10"] by blast
  then show ?case by (simp del: pad.simps(2) add: pad.simps(2)[of "Suc k"])
qed

lemma read_year_string:
  assumes "- 999999 \<le> y" "y \<le> 999999"
  shows "read_year (year_string y @ r) = Some (y, r)"
proof (cases "0 \<le> y \<and> y \<le> 9999")
  case True
  obtain c cs where c: "pad 4 y = c # cs" "c \<noteq> CHR ''+''" "c \<noteq> CHR ''-''"
    using pad_Suc_Cons[of 3 y] by (auto simp: eval_nat_numeral)
  have "read_year (pad 4 y @ r) = read_digits 4 0 (pad 4 y @ r)"
    by (simp add: read_year_def c)
  also have "\<dots> = Some (y, r)"
    using True read_digits_pad[of y 4 0 r] by simp
  finally show ?thesis using True by (simp add: year_string_def)
next
  case False
  show ?thesis
  proof (cases "y < 0")
    case True
    then have "read_digits 6 0 (pad 6 \<bar>y\<bar> @ r) = Some (\<bar>y\<bar>, r)"
      using assms read_digits_pad[of "\<bar>y\<bar>" 6 0 r] by simp
    then show ?thesis
      using True by (simp add: year_string_def read_year_def)
  next
    case pos: False
    then have "read_digits 6 0 (pad 6 \<bar>y\<bar> @ r) = Some (\<bar>y\<bar>, r)"
      using assms read_digits_pad[of "\<bar>y\<bar>" 6 0 r] by simp
    then show ?thesis
      using pos False by (simp add: year_string_def read_year_def)
  qed
qed

lemma read_sep_other: "x \<noteq> c \<Longrightarrow> read_sep c k (x # r) = None"
  by (simp add: read_sep_def)

lemma read_iso_written:
  assumes "- 999999 \<le> Y" "Y \<le> 999999"
    and "0 \<le> M" "M \<le> 99" "0 \<le> D" "D \<le> 99" "0 \<le> h" "h \<le> 99"
    and "0 \<le> mi" "mi \<le> 99" "0 \<le> sec" "sec \<le> 99"
  shows "read_iso (year_string Y @ ''-'' @ pad 2 M @ ''-'' @ pad 2 D @ ''T'' @ pad 2 h @ '':'' @
           pad 2 mi @ '':'' @ pad 2 sec @ ''Z'') =
         Some \<lparr>f_year = Y, f_month = M, f_day = D, f_hour = h, f_minute = mi,
               f_second = sec, f_ms = 0, f_zone = Offset 0\<rparr>"
proof -
  have t: "read_time (CHR ''T'' # pad 2 h @ CHR '':'' # pad 2 mi @ CHR '':'' # pad 2 sec @ ''Z'') =
             Some ((h, mi, sec, 0), ''Z'')"
    using assms by (simp add: read_time_def read_sep_pad read_sep_other)
  have d: "read_date (year_string Y @ CHR ''-'' # pad 2 M @ CHR ''-'' # pad 2 D @ rest) =
             Some ((Y, M, D), rest)" for rest
    using assms by (simp add: read_date_def read_year_string read_sep_pad)
  have z: "read_zone ''Z'' = Some (Offset 0)"
    by (simp add: read_zone_def)
  show ?thesis
    using d[of "CHR ''T'' # pad 2 h @ CHR '':'' # pad 2 mi @ CHR '':'' # pad 2 sec @ ''Z''"] t z
    by (simp add: read_iso_def)
qed

lemma read_iso_seconds:
  assumes "\<bar>t\<bar> \<le> 8640000000000000"
  shows "read_iso (iso_seconds t @ ''Z'') =
         Some \<lparr>f_year = YearFromTime t, f_month = MonthFromTime t + 1, f_day = DateFromTime t,
               f_hour = HourFromTime t, f_minute = MinFromTime t, f_second = SecFromTime t,
               f_ms = 0, f_zone = Offset 0\<rparr>"
  using read_iso_written[of "YearFromTime t" "MonthFromTime t + 1" "DateFromTime t"
      "HourFromTime t" "MinFromTime t" "SecFromTime t"]
    YearFromTime_range[OF assms] MonthFromTime_bounds(1,2)[of t] DateFromTime_bounds(1,3)[of t]
    time_bounds[of t]
  by (simp add: iso_seconds_def)

lemma in_bounds_written:
  "in_bounds \<lparr>f_year = YearFromTime t, f_month = MonthFromTime t + 1, f_day = DateFromTime t,
               f_hour = HourFromTime t, f_minute = MinFromTime t, f_second = SecFromTime t,
               f_ms = 0, f_zone = Offset 0\<rparr>"
  using MonthFromTime_bounds(1,2)[of t] DateFromTime_bounds(1,2)[of t] time_bounds[of t]
  by (simp add: in_bounds_def)

lemma floor_second_valid:
  fixes t :: int
  assumes "\<bar>t\<bar> \<le> 8640000000000000"
  shows "\<bar>t - t mod 1000\<bar> \<le> 8640000000000000"
proof -
  have "1000 * (t div 1000) = t - t mod 1000"
    using mult_div_mod_eq[of 1000 t] by linarith
  moreover have "0 \<le> t mod 1000" by simp
  moreover have "- 8640000000000 \<le> t div 1000"
    using assms div_bounds(2)[of 1000 t] by linarith
  ultimately show ?thesis using assms by linarith
qed

text \<open>
  Reading the written string back gives the time value of the whole second, in every
  environment.
\<close>

lemma Date_parse_iso_seconds:
  assumes "\<bar>t\<bar> \<le> 8640000000000000"
  shows "Date_parse env (iso_seconds t @ ''Z'') = Some (t - t mod 1000)"
proof -
  have "fields_value \<lparr>f_year = YearFromTime t, f_month = MonthFromTime t + 1, f_day = DateFromTime t,
               f_hour = HourFromTime t, f_minute = MinFromTime t, f_second = SecFromTime t,
               f_ms = 0, f_zone = Offset 0\<rparr> = t - t mod 1000"
    by (simp add: fields_value_def MakeDay_fields MakeDate_fields)
  then show ?thesis
    using floor_second_valid[OF assms]
    by (simp add: Date_parse_def read_iso_seconds[OF assms] in_bounds_written fields_time_def
        TimeClip_def)
qed

lemma iso_seconds_floor: "iso_seconds (t - t mod 1000) = iso_seconds t"
  by (simp add: iso_seconds_def floor_second_fields same_day_fields[OF floor_second_fields(1)])

lemma year_string_no_dot: "CHR ''.'' \<notin> set (year_string y)"
  using pad_digits by (auto simp: year_string_def)

lemma iso_seconds_no_dot: "CHR ''.'' \<notin> set (iso_seconds t)"
  using pad_digits year_string_no_dot by (auto simp: iso_seconds_def)

lemma split_dot_first_written:
  "split_dot_first (iso_seconds t @ ''.'' @ r) = iso_seconds t"
  using iso_seconds_no_dot[of t] by (simp add: split_dot_first_def takeWhile_append)

lemma TimeClip_Some: "TimeClip x = Some t \<Longrightarrow> x = t \<and> \<bar>t\<bar> \<le> 8640000000000000"
  by (auto simp: TimeClip_def split: if_splits)

lemma new_Date_valid: "new_Date env d = Some t \<Longrightarrow> \<bar>t\<bar> \<le> 8640000000000000"
  by (cases d) (auto dest: TimeClip_Some split: option.splits)

text \<open>What the normalisation returns on a date that the engine parses.\<close>

lemma formatToISO8601_parsed:
  assumes "\<not> falsy_field d" "new_Date env d = Some t"
  shows "formatToISO8601 env d = Inr (Some (iso_seconds t @ ''Z''))"
  using assms split_dot_first_written[of t]
  by (simp add: formatToISO8601_cases)

lemma formatToISO8601_Some:
  assumes "formatToISO8601 env d = Inr (Some out)"
  shows "\<exists>t. \<not> falsy_field d \<and> new_Date env d = Some t \<and> out = iso_seconds t @ ''Z''"
  using assms split_dot_first_written
  by (auto simp: formatToISO8601_cases split: if_splits option.splits)

lemma matches_written:
  assumes "0 \<le> y" "y \<le> 9999"
  shows "matches iso_pattern
           (year_string y @ ''-'' @ pad 2 m @ ''-'' @ pad 2 d @ ''T'' @ pad 2 h @ '':'' @
            pad 2 mi @ '':'' @ pad 2 sec @ ''Z'')"
proof -
  have "matches iso_pattern
           (pad 4 y @ ''-'' @ pad 2 m @ ''-'' @ pad 2 d @ ''T'' @ pad 2 h @ '':'' @
            pad 2 mi @ '':'' @ pad 2 sec @ ''Z'')"
    by (simp add: iso_pattern_def eval_nat_numeral mod10_digit)
  then show ?thesis using assms by (simp add: year_string_def)
qed

lemma matches_iso_seconds:
  assumes "0 \<le> YearFromTime t" "YearFromTime t \<le> 9999"
  shows "matches iso_pattern (iso_seconds t @ ''Z'')"
  using matches_written[OF assms] by (simp add: iso_seconds_def)

lemma TimeClip_idem: "TimeClip x = Some t \<Longrightarrow> TimeClip t = Some t"
  by (auto simp: TimeClip_def split: if_splits)

lemma fields_time_clipped: "fields_time env f = Some t \<Longrightarrow> TimeClip t = Some t"
  by (auto simp: fields_time_def split: zone.splits dest: TimeClip_idem)

lemma new_Date_written:
  assumes "\<bar>t\<bar> \<le> 8640000000000000"
  shows "new_Date env (Str (iso_seconds t @ ''Z'')) = Some (t - t mod 1000)"
  using floor_second_valid[OF assms]
  by (simp add: Date_parse_iso_seconds[OF assms] TimeClip_def)

subsection \<open>The scenario of the specification\<close>

lemma scenario_not_iso: "read_iso ''2024-01-15 10:30:00'' = None"
  by code_simp

lemma scenario_local_time: "MakeDate (MakeDay 2024 0 15) (MakeTime 10 30 0 0) = 1705314600000"
  by code_simp

lemma scenario_written: "iso_seconds 1705314600000 = ''2024-01-15T10:30:00''"
  by code_simp

section \<open>The claims about the classification of the response\<close>

text \<open>
  Claim C1, as the code has it. In \<^verbatim>\<open>amazon_settings.js\<close>, for a resolved response
  whose message is absent, \<^verbatim>\<open>null\<close> or the empty array the one notice rendered is
  the informational one, and for a message that is an array of length at least 1 it is the
  success notice. In the handler of "Amazon API Settings", for a resolved response whose
  message is absent or \<^verbatim>\<open>null\<close> the one notice rendered is the red error notice
  ("No orders were synced."), and for an array of length at least 1 it is the success
  notice.
\<close>

theorem message_classification:
  "(thrown (load_sync env frm (Resolved res)) = None \<longrightarrow>
      (message res = JUndefined \<or> message res = JNull \<or> message res = JArr [] \<longrightarrow>
         rendered (events (load_sync env frm (Resolved res))) = [Information]) \<and>
      (message res = JArr (x # xs) \<longrightarrow>
         rendered (events (load_sync env frm (Resolved res))) = [Success])) \<and>
   (thrown (api_load_sync env frm (Resolved res)) = None \<longrightarrow>
      (message res = JUndefined \<or> message res = JNull \<longrightarrow>
         rendered (events (api_load_sync env frm (Resolved res))) = [Error]) \<and>
      (message res = JArr (x # xs) \<longrightarrow>
         rendered (events (api_load_sync env frm (Resolved res))) = [Success]))"
  by (auto simp: rendered_resolved rendered_api_resolved rendered_callback rendered_api_callback)

theorem message_classification_witness:
  "thrown (load_sync engine_utc unset_form (Resolved \<lparr>message = JNull\<rparr>)) = None \<and>
   rendered (events (load_sync engine_utc unset_form (Resolved \<lparr>message = JNull\<rparr>))) =
     [Information] \<and>
   thrown (load_sync engine_utc unset_form (Resolved \<lparr>message = JArr [JStr ''PO-1'']\<rparr>)) = None \<and>
   rendered (events (load_sync engine_utc unset_form (Resolved \<lparr>message = JArr [JStr ''PO-1'']\<rparr>))) =
     [Success] \<and>
   thrown (api_load_sync engine_utc unset_form (Resolved \<lparr>message = JNull\<rparr>)) = None \<and>
   rendered (events (api_load_sync engine_utc unset_form (Resolved \<lparr>message = JNull\<rparr>))) =
     [Error] \<and>
   thrown (api_load_sync engine_utc unset_form (Resolved \<lparr>message = JArr [JStr ''PO-1'']\<rparr>)) = None \<and>
   rendered (events (api_load_sync engine_utc unset_form (Resolved \<lparr>message = JArr [JStr ''PO-1'']\<rparr>))) =
     [Success]"
proof -
  have t1: "thrown (load_sync engine_utc unset_form (Resolved \<lparr>message = JNull\<rparr>)) = None"
    by code_simp
  have t2: "thrown (load_sync engine_utc unset_form (Resolved \<lparr>message = JArr [JStr ''PO-1'']\<rparr>)) = None"
    by code_simp
  have t3: "thrown (api_load_sync engine_utc unset_form (Resolved \<lparr>message = JNull\<rparr>)) = None"
    by code_simp
  have t4: "thrown (api_load_sync engine_utc unset_form (Resolved \<lparr>message = JArr [JStr ''PO-1'']\<rparr>)) = None"
    by code_simp
  show ?thesis
    using t1 t2 t3 t4
      message_classification[of engine_utc unset_form "\<lparr>message = JNull\<rparr>" "JStr ''PO-1''" "[]"]
      message_classification[of engine_utc unset_form "\<lparr>message = JArr [JStr ''PO-1'']\<rparr>" "JStr ''PO-1''" "[]"]
    by simp
qed

text \<open>
  The claim as the specification states it fails on the second handler: a resolved
  response with the message \<^verbatim>\<open>null\<close> gets the red error notice, not the
  informational one.
\<close>

theorem api_null_message_counterexample:
  "thrown (api_load_sync engine_utc unset_form (Resolved \<lparr>message = JNull\<rparr>)) = None \<and>
   rendered (events (api_load_sync engine_utc unset_form (Resolved \<lparr>message = JNull\<rparr>))) = [Error] \<and>
   rendered (events (api_load_sync engine_utc unset_form (Resolved \<lparr>message = JNull\<rparr>))) \<noteq>
     [Information]"
  by code_simp

text \<open>
  Claim C10. In \<^verbatim>\<open>amazon_settings.js\<close>, for every resolved response whose message is
  truthy but is not an array (a non-empty string, a plain object, a number other than 0,
  \<^verbatim>\<open>true\<close>), the one notice that the handler renders is the informational one, never
  the success notice: the guard \<^verbatim>\<open>Array.isArray\<close> rejects the message.
\<close>

theorem non_array_message_is_information:
  assumes "thrown (load_sync env frm (Resolved res)) = None"
    and "truthy (message res)" and "\<not> isArray (message res)"
  shows "rendered (events (load_sync env frm (Resolved res))) = [Information]"
  using assms(2,3) by (simp add: rendered_resolved[OF assms(1)] rendered_callback)

theorem non_array_message_is_information_witness:
  "thrown (load_sync engine_utc unset_form (Resolved \<lparr>message = JStr ''done''\<rparr>)) = None \<and>
   truthy (message \<lparr>message = JStr ''done''\<rparr>) \<and>
   \<not> isArray (message \<lparr>message = JStr ''done''\<rparr>) \<and>
   rendered (events (load_sync engine_utc unset_form (Resolved \<lparr>message = JStr ''done''\<rparr>))) =
     [Information]"
proof -
  have t: "thrown (load_sync engine_utc unset_form (Resolved \<lparr>message = JStr ''done''\<rparr>)) = None"
    by code_simp
  show ?thesis
    using t non_array_message_is_information[OF t] by simp
qed

section \<open>The claims about the overlay, the call and the outcome\<close>

text \<open>
  Claim C2, as the code has it. In \<^verbatim>\<open>amazon_settings.js\<close>, on every invocation in
  which the normalisation of both dates returns, the calls of the handler into the user
  interface and the transport are, in this order: the overlay is shown, the remote call is
  issued, the overlay is cleared, one notice is rendered; this holds for a resolved call
  (empty or not) and for a rejected one, so the overlay is cleared on each of the three
  ways out and before the notice. The handler of "Amazon API Settings" never shows or
  clears an overlay: it issues the call and, when the call resolves, renders a notice.
\<close>

theorem overlay_around_call:
  "(thrown (load_sync env frm outcome) = None \<longrightarrow>
      overlay_discipline False (events (load_sync env frm outcome)) \<and>
      (\<exists>opts n. ui_events (events (load_sync env frm outcome)) =
         [Freeze ''Fetching orders from Amazon...'', Call opts, Unfreeze, Msgprint n])) \<and>
   (thrown (api_load_sync env frm outcome) = None \<longrightarrow>
      (\<exists>opts. ui_events (events (api_load_sync env frm outcome)) = [Call opts] \<or>
         (\<exists>n. ui_events (events (api_load_sync env frm outcome)) = [Call opts, Msgprint n])))"
proof (intro conjI impI)
  assume t: "thrown (load_sync env frm outcome) = None"
  from load_sync_events[OF t] obtain a b where
    e: "events (load_sync env frm outcome) =
       [ConsoleLog [JStr (''From Date (ISO): '' @ template_text a)],
        ConsoleLog [JStr (''To Date (ISO): '' @ template_text b)],
        Freeze ''Fetching orders from Amazon...'',
        Call [(''method'', OStr sync_method),
              (''args'', OArgs [(''created_after'', a), (''created_before'', b)]),
              (''callback'', OFunction),
              (''error'', OFunction)]] @
       (case outcome of
          Resolved res \<Rightarrow> load_sync_callback env res
        | Rejected err \<Rightarrow> load_sync_error env err)"
    by blast
  show "overlay_discipline False (events (load_sync env frm outcome))"
    unfolding e by (cases outcome) (simp_all add: load_sync_callback_def load_sync_error_def)
  show "\<exists>opts n. ui_events (events (load_sync env frm outcome)) =
         [Freeze ''Fetching orders from Amazon...'', Call opts, Unfreeze, Msgprint n]"
    unfolding e
    by (cases outcome) (simp_all add: ui_events_def load_sync_callback_def load_sync_error_def)
next
  assume t: "thrown (api_load_sync env frm outcome) = None"
  from api_load_sync_events[OF t] obtain a b where
    e: "events (api_load_sync env frm outcome) =
       [ConsoleLog [JStr (''From Date (ISO): '' @ template_text a)],
        ConsoleLog [JStr (''From Date (ISO): '' @ template_text b)],
        Call [(''method'', OStr sync_method),
              (''args'', OArgs [(''created_after'', a), (''created_before'', b)]),
              (''callback'', OFunction)]] @
       (case outcome of
          Resolved res \<Rightarrow> api_load_sync_callback env res
        | Rejected err \<Rightarrow> [])"
    by blast
  show "\<exists>opts. ui_events (events (api_load_sync env frm outcome)) = [Call opts] \<or>
         (\<exists>n. ui_events (events (api_load_sync env frm outcome)) = [Call opts, Msgprint n])"
    unfolding e
    by (cases outcome) (simp_all add: ui_events_def api_load_sync_callback_def)
qed

theorem overlay_around_call_witness:
  "thrown (load_sync engine_utc unset_form (Rejected (JStr ''timeout''))) = None \<and>
   overlay_discipline False (events (load_sync engine_utc unset_form (Rejected (JStr ''timeout'')))) \<and>
   (\<exists>opts n. ui_events (events (load_sync engine_utc unset_form (Rejected (JStr ''timeout'')))) =
         [Freeze ''Fetching orders from Amazon...'', Call opts, Unfreeze, Msgprint n]) \<and>
   thrown (api_load_sync engine_utc unset_form (Rejected (JStr ''timeout''))) = None \<and>
   (\<exists>opts. ui_events (events (api_load_sync engine_utc unset_form (Rejected (JStr ''timeout'')))) = [Call opts] \<or>
      (\<exists>n. ui_events (events (api_load_sync engine_utc unset_form (Rejected (JStr ''timeout'')))) = [Call opts, Msgprint n]))"
proof -
  have t1: "thrown (load_sync engine_utc unset_form (Rejected (JStr ''timeout''))) = None"
    by code_simp
  have t2: "thrown (api_load_sync engine_utc unset_form (Rejected (JStr ''timeout''))) = None"
    by code_simp
  show ?thesis
    using t1 t2 overlay_around_call[of engine_utc unset_form "Rejected (JStr ''timeout'')"]
    by blast
qed

text \<open>
  The claim as the specification states it fails on the second handler, which issues the
  call while no overlay is shown.
\<close>

theorem api_no_overlay_counterexample:
  "thrown (api_load_sync engine_utc unset_form (Resolved \<lparr>message = JArr [JStr ''PO-1'']\<rparr>)) = None \<and>
   \<not> overlay_discipline False
       (events (api_load_sync engine_utc unset_form (Resolved \<lparr>message = JArr [JStr ''PO-1'']\<rparr>))) \<and>
   ui_events (events (api_load_sync engine_utc unset_form (Resolved \<lparr>message = JArr [JStr ''PO-1'']\<rparr>))) =
     [Call [(''method'', OStr sync_method),
            (''args'', OArgs [(''created_after'', None), (''created_before'', None)]),
            (''callback'', OFunction)],
      Msgprint \<lparr>title = ''Success'', msg = ''Orders synced successfully.'', indicator = ''green''\<rparr>]"
  by code_simp

text \<open>
  Claim C3, as the code has it. When each of the two date fields is absent, empty or
  parsed by the engine to a valid date, no exception leaves the handler of
  \<^verbatim>\<open>amazon_settings.js\<close>, whatever the outcome of the call, and the handler renders
  exactly one notice. When a date field is present and the engine does not parse it,
  \<^verbatim>\<open>toISOString\<close> throws a RangeError, which leaves the handler before it has logged,
  shown the overlay or issued the call: nothing in the handler catches it.
\<close>

theorem notice_or_exception:
  "(valid_input env (from_date (doc frm)) \<and> valid_input env (to_date (doc frm)) \<longrightarrow>
      thrown (load_sync env frm outcome) = None \<and>
      length (notices (events (load_sync env frm outcome))) = 1) \<and>
   (\<not> valid_input env (from_date (doc frm)) \<or> \<not> valid_input env (to_date (doc frm)) \<longrightarrow>
      thrown (load_sync env frm outcome) = Some RangeError \<and>
      events (load_sync env frm outcome) = [])"
proof (intro conjI impI)
  assume v: "valid_input env (from_date (doc frm)) \<and> valid_input env (to_date (doc frm))"
  then obtain a b where ab: "formatToISO8601 env (from_date (doc frm)) = Inr a"
    "formatToISO8601 env (to_date (doc frm)) = Inr b"
    using formatToISO8601_valid by blast
  show "thrown (load_sync env frm outcome) = None"
    by (simp add: load_sync_returns[OF ab] thrown_def)
  show "length (notices (events (load_sync env frm outcome))) = 1"
    by (cases outcome)
      (simp_all add: load_sync_returns[OF ab] events_def notices_simps
        load_sync_callback_def load_sync_error_def)
next
  assume "\<not> valid_input env (from_date (doc frm)) \<or> \<not> valid_input env (to_date (doc frm))"
  then have "load_sync env frm outcome = Inl RangeError"
    by (rule load_sync_throws)
  then show "thrown (load_sync env frm outcome) = Some RangeError"
    and "events (load_sync env frm outcome) = []"
    by (simp_all add: thrown_def events_def)
qed

theorem notice_or_exception_witness:
  "valid_input engine_utc (from_date (doc scenario_form)) \<and>
   valid_input engine_utc (to_date (doc scenario_form)) \<and>
   thrown (load_sync engine_utc scenario_form (Rejected JNull)) = None \<and>
   length (notices (events (load_sync engine_utc scenario_form (Rejected JNull)))) = 1 \<and>
   \<not> valid_input engine_utc (from_date (doc \<lparr>doc = \<lparr>from_date = Str ''abc'', to_date = Null\<rparr>\<rparr>)) \<and>
   thrown (load_sync engine_utc \<lparr>doc = \<lparr>from_date = Str ''abc'', to_date = Null\<rparr>\<rparr> (Rejected JNull)) =
     Some RangeError \<and>
   events (load_sync engine_utc \<lparr>doc = \<lparr>from_date = Str ''abc'', to_date = Null\<rparr>\<rparr> (Rejected JNull)) = []"
proof -
  have v1: "valid_input engine_utc (from_date (doc scenario_form))"
    and v2: "valid_input engine_utc (to_date (doc scenario_form))"
    and v3: "\<not> valid_input engine_utc (from_date (doc \<lparr>doc = \<lparr>from_date = Str ''abc'', to_date = Null\<rparr>\<rparr>))"
    by code_simp+
  show ?thesis
    using v1 v2 v3 notice_or_exception[of engine_utc scenario_form "Rejected JNull"]
      notice_or_exception[of engine_utc "\<lparr>doc = \<lparr>from_date = Str ''abc'', to_date = Null\<rparr>\<rparr>" "Rejected JNull"]
    by blast
qed

text \<open>
  The claim as the specification states it fails on a date that the engine does not
  parse: the exception leaves the handler and no notice is rendered.
\<close>

theorem unparseable_date_counterexample:
  "thrown (load_sync engine_utc \<lparr>doc = \<lparr>from_date = Str ''abc'', to_date = Null\<rparr>\<rparr>
     (Resolved \<lparr>message = JArr [JStr ''PO-1'']\<rparr>)) = Some RangeError \<and>
   notices (events (load_sync engine_utc \<lparr>doc = \<lparr>from_date = Str ''abc'', to_date = Null\<rparr>\<rparr>
     (Resolved \<lparr>message = JArr [JStr ''PO-1'']\<rparr>))) = []"
  by code_simp

text \<open>
  Claim C4, as the code has it. In \<^verbatim>\<open>amazon_settings.js\<close>, when the remote call is
  rejected, the handler renders the red error notice and no other, logs the failure detail
  with \<^verbatim>\<open>console.error\<close> once, and clears the overlay exactly once. The handler of
  "Amazon API Settings" gives \<^verbatim>\<open>frappe.call\<close> no \<^verbatim>\<open>error\<close> function: on a rejected
  call it renders no notice and logs no failure.
\<close>

theorem rejected_call:
  "(thrown (load_sync env frm (Rejected err)) = None \<longrightarrow>
      rendered (events (load_sync env frm (Rejected err))) = [Error] \<and>
      count_list (events (load_sync env frm (Rejected err)))
        (ConsoleError [JStr ''Error syncing orders:'', err]) = 1 \<and>
      count_list (events (load_sync env frm (Rejected err))) Unfreeze = 1) \<and>
   (thrown (api_load_sync env frm (Rejected err)) = None \<longrightarrow>
      (\<exists>opts. ui_events (events (api_load_sync env frm (Rejected err))) = [Call opts]) \<and>
      (\<forall>vs. ConsoleError vs \<notin> set (events (api_load_sync env frm (Rejected err)))))"
proof (intro conjI impI)
  assume t: "thrown (load_sync env frm (Rejected err)) = None"
  from load_sync_events[OF t] obtain a b where
    e: "events (load_sync env frm (Rejected err)) =
       [ConsoleLog [JStr (''From Date (ISO): '' @ template_text a)],
        ConsoleLog [JStr (''To Date (ISO): '' @ template_text b)],
        Freeze ''Fetching orders from Amazon...'',
        Call [(''method'', OStr sync_method),
              (''args'', OArgs [(''created_after'', a), (''created_before'', b)]),
              (''callback'', OFunction),
              (''error'', OFunction)]] @ load_sync_error env err"
    by auto
  show "rendered (events (load_sync env frm (Rejected err))) = [Error]"
    unfolding e by (simp add: rendered_def notices_simps load_sync_error_def variant_of_def)
  show "count_list (events (load_sync env frm (Rejected err)))
        (ConsoleError [JStr ''Error syncing orders:'', err]) = 1"
    unfolding e by (simp add: load_sync_error_def)
  show "count_list (events (load_sync env frm (Rejected err))) Unfreeze = 1"
    unfolding e by (simp add: load_sync_error_def)
next
  assume t: "thrown (api_load_sync env frm (Rejected err)) = None"
  from api_load_sync_events[OF t]
  show "\<exists>opts. ui_events (events (api_load_sync env frm (Rejected err))) = [Call opts]"
    and "\<forall>vs. ConsoleError vs \<notin> set (events (api_load_sync env frm (Rejected err)))"
    by (auto simp: ui_events_def)
qed

theorem rejected_call_witness:
  "thrown (load_sync engine_utc unset_form (Rejected (JStr ''timeout''))) = None \<and>
   rendered (events (load_sync engine_utc unset_form (Rejected (JStr ''timeout'')))) = [Error] \<and>
   count_list (events (load_sync engine_utc unset_form (Rejected (JStr ''timeout''))))
     (ConsoleError [JStr ''Error syncing orders:'', JStr ''timeout'']) = 1 \<and>
   count_list (events (load_sync engine_utc unset_form (Rejected (JStr ''timeout'')))) Unfreeze = 1 \<and>
   thrown (api_load_sync engine_utc unset_form (Rejected (JStr ''timeout''))) = None \<and>
   (\<exists>opts. ui_events (events (api_load_sync engine_utc unset_form (Rejected (JStr ''timeout'')))) =
      [Call opts]) \<and>
   (\<forall>vs. ConsoleError vs \<notin> set (events (api_load_sync engine_utc unset_form (Rejected (JStr ''timeout'')))))"
proof -
  have t1: "thrown (load_sync engine_utc unset_form (Rejected (JStr ''timeout''))) = None"
    by code_simp
  have t2: "thrown (api_load_sync engine_utc unset_form (Rejected (JStr ''timeout''))) = None"
    by code_simp
  show ?thesis
    using t1 t2 rejected_call[of engine_utc unset_form "JStr ''timeout''"]
    by blast
qed

text \<open>
  The claim as the specification states it fails on the second handler: the call is
  issued and rejected, and the handler renders nothing and clears nothing.
\<close>

theorem api_rejected_counterexample:
  "thrown (api_load_sync engine_utc unset_form (Rejected (JStr ''timeout''))) = None \<and>
   length (calls (events (api_load_sync engine_utc unset_form (Rejected (JStr ''timeout''))))) = 1 \<and>
   rendered (events (api_load_sync engine_utc unset_form (Rejected (JStr ''timeout'')))) = [] \<and>
   count_list (events (api_load_sync engine_utc unset_form (Rejected (JStr ''timeout'')))) Unfreeze = 0"
  by code_simp

section \<open>The claims about the arguments of the call\<close>

text \<open>
  Claim C5. For an absent or empty date (\<^verbatim>\<open>undefined\<close>, \<^verbatim>\<open>null\<close> or the empty
  string), \<^verbatim>\<open>formatToISO8601\<close> returns \<^verbatim>\<open>null\<close> in every environment, that is
  whatever the date parser of the engine would have made of the value: the parser has no
  part in the result. In every remote call that the handler of
  \<^verbatim>\<open>amazon_settings.js\<close> issues, the corresponding argument is that \<^verbatim>\<open>null\<close>,
  not a default date; and the call is issued, with the normalised other date next to it,
  whenever the normalisation of the other date returns.
\<close>

theorem absent_date_is_null:
  "(falsy_field d \<longrightarrow> formatToISO8601 env d = Inr None) \<and>
   (falsy_field (from_date (doc frm)) \<longrightarrow>
      list_all (\<lambda>kvs. map_of kvs ''created_after'' = Some None)
        (passed (events (load_sync env frm outcome)))) \<and>
   (falsy_field (to_date (doc frm)) \<longrightarrow>
      list_all (\<lambda>kvs. map_of kvs ''created_before'' = Some None)
        (passed (events (load_sync env frm outcome)))) \<and>
   (falsy_field (from_date (doc frm)) \<and> formatToISO8601 env (to_date (doc frm)) = Inr b \<longrightarrow>
      passed (events (load_sync env frm outcome)) =
        [[(''created_after'', None), (''created_before'', b)]]) \<and>
   (falsy_field (to_date (doc frm)) \<and> formatToISO8601 env (from_date (doc frm)) = Inr a \<longrightarrow>
      passed (events (load_sync env frm outcome)) =
        [[(''created_after'', a), (''created_before'', None)]])"
proof (intro conjI impI)
  show "formatToISO8601 env d = Inr None" if "falsy_field d"
    using that by (simp add: formatToISO8601_def)
next
  assume f: "falsy_field (from_date (doc frm))"
  then have a: "formatToISO8601 env (from_date (doc frm)) = Inr None"
    by (simp add: formatToISO8601_def)
  show "list_all (\<lambda>kvs. map_of kvs ''created_after'' = Some None)
          (passed (events (load_sync env frm outcome)))"
  proof (cases "valid_input env (to_date (doc frm))")
    case True
    then obtain b' where "formatToISO8601 env (to_date (doc frm)) = Inr b'"
      using formatToISO8601_valid by blast
    from passed_load_sync[OF a this] show ?thesis
      by (simp add: passed_def args_of_def)
  next
    case False
    then show ?thesis
      by (simp add: load_sync_throws events_def passed_def calls_simps)
  qed
next
  assume f: "falsy_field (to_date (doc frm))"
  then have b: "formatToISO8601 env (to_date (doc frm)) = Inr None"
    by (simp add: formatToISO8601_def)
  show "list_all (\<lambda>kvs. map_of kvs ''created_before'' = Some None)
          (passed (events (load_sync env frm outcome)))"
  proof (cases "valid_input env (from_date (doc frm))")
    case True
    then obtain a' where "formatToISO8601 env (from_date (doc frm)) = Inr a'"
      using formatToISO8601_valid by blast
    from passed_load_sync[OF this b] show ?thesis
      by (simp add: passed_def args_of_def)
  next
    case False
    then show ?thesis
      by (simp add: load_sync_throws events_def passed_def calls_simps)
  qed
next
  assume h: "falsy_field (from_date (doc frm)) \<and> formatToISO8601 env (to_date (doc frm)) = Inr b"
  then have "formatToISO8601 env (from_date (doc frm)) = Inr None"
    by (simp add: formatToISO8601_def)
  from passed_load_sync[OF this conjunct2[OF h]]
  show "passed (events (load_sync env frm outcome)) =
        [[(''created_after'', None), (''created_before'', b)]]"
    by (simp add: passed_def args_of_def)
next
  assume h: "falsy_field (to_date (doc frm)) \<and> formatToISO8601 env (from_date (doc frm)) = Inr a"
  then have "formatToISO8601 env (to_date (doc frm)) = Inr None"
    by (simp add: formatToISO8601_def)
  from passed_load_sync[OF conjunct2[OF h] this]
  show "passed (events (load_sync env frm outcome)) =
        [[(''created_after'', a), (''created_before'', None)]]"
    by (simp add: passed_def args_of_def)
qed

theorem absent_date_is_null_witness:
  "falsy_field (Str []) \<and> formatToISO8601 engine_ist (Str []) = Inr None \<and>
   falsy_field Undefined \<and> new_Date engine_ist Undefined = None \<and>
   formatToISO8601 engine_ist Undefined = Inr None \<and>
   falsy_field (from_date (doc unset_form)) \<and>
   formatToISO8601 engine_ist (to_date (doc unset_form)) = Inr None \<and>
   passed (events (load_sync engine_ist unset_form (Resolved \<lparr>message = JNull\<rparr>))) =
     [[(''created_after'', None), (''created_before'', None)]] \<and>
   falsy_field (to_date (doc scenario_form)) \<and>
   formatToISO8601 engine_ist (from_date (doc scenario_form)) = Inr (Some ''2024-01-15T05:00:00Z'') \<and>
   passed (events (load_sync engine_ist scenario_form (Resolved \<lparr>message = JNull\<rparr>))) =
     [[(''created_after'', Some ''2024-01-15T05:00:00Z''), (''created_before'', None)]]"
proof -
  have f1: "falsy_field (Str [])"
    and f0: "falsy_field Undefined" "new_Date engine_ist Undefined = None"
    and f2: "falsy_field (from_date (doc unset_form))"
    and f3: "formatToISO8601 engine_ist (to_date (doc unset_form)) = Inr None"
    and f4: "falsy_field (to_date (doc scenario_form))"
    and f5: "formatToISO8601 engine_ist (from_date (doc scenario_form)) =
               Inr (Some ''2024-01-15T05:00:00Z'')"
    by code_simp+
  show ?thesis
    using f0 f1 f2 f3 f4 f5
      absent_date_is_null[where d = Undefined and env = engine_ist and frm = unset_form
        and outcome = "Resolved \<lparr>message = JNull\<rparr>" and a = None and b = None]
      absent_date_is_null[where d = "Str []" and env = engine_ist and frm = unset_form
        and outcome = "Resolved \<lparr>message = JNull\<rparr>" and a = None and b = None]
      absent_date_is_null[where d = "Str []" and env = engine_ist and frm = scenario_form
        and outcome = "Resolved \<lparr>message = JNull\<rparr>" and a = "Some ''2024-01-15T05:00:00Z''"
        and b = None]
    by blast
qed

text \<open>
  Claim C8, as the code has it. When the normalisation returns for both dates, an
  invocation of either handler issues exactly one remote call, whatever the outcome (so a
  rejected call is not repeated); its options are the method, fixed to
  \<^verbatim>\<open>amazon_integration.amazon_integration.py.amazon.sync_amazon_vendor_orders\<close>, the
  arguments \<^verbatim>\<open>created_after\<close> and \<^verbatim>\<open>created_before\<close> with the two normalised
  values, and the functions \<^verbatim>\<open>callback\<close> and, in \<^verbatim>\<open>amazon_settings.js\<close> only,
  \<^verbatim>\<open>error\<close>: no timeout and no other option. When the normalisation of a date
  throws, the invocation issues no call.
\<close>

theorem one_call_per_invocation:
  "(formatToISO8601 env (from_date (doc frm)) = Inr a \<and>
    formatToISO8601 env (to_date (doc frm)) = Inr b \<longrightarrow>
      calls (events (load_sync env frm outcome)) =
        [[(''method'', OStr sync_method),
          (''args'', OArgs [(''created_after'', a), (''created_before'', b)]),
          (''callback'', OFunction),
          (''error'', OFunction)]] \<and>
      calls (events (api_load_sync env frm outcome)) =
        [[(''method'', OStr sync_method),
          (''args'', OArgs [(''created_after'', a), (''created_before'', b)]),
          (''callback'', OFunction)]]) \<and>
   (\<not> valid_input env (from_date (doc frm)) \<or> \<not> valid_input env (to_date (doc frm)) \<longrightarrow>
      calls (events (load_sync env frm outcome)) = [] \<and>
      calls (events (api_load_sync env frm outcome)) = [])"
proof (intro conjI impI)
  assume h: "formatToISO8601 env (from_date (doc frm)) = Inr a \<and>
    formatToISO8601 env (to_date (doc frm)) = Inr b"
  show "calls (events (load_sync env frm outcome)) =
        [[(''method'', OStr sync_method),
          (''args'', OArgs [(''created_after'', a), (''created_before'', b)]),
          (''callback'', OFunction),
          (''error'', OFunction)]]"
    using h by (simp add: passed_load_sync)
  show "calls (events (api_load_sync env frm outcome)) =
        [[(''method'', OStr sync_method),
          (''args'', OArgs [(''created_after'', a), (''created_before'', b)]),
          (''callback'', OFunction)]]"
    using h by (simp add: passed_api_load_sync)
next
  assume h: "\<not> valid_input env (from_date (doc frm)) \<or> \<not> valid_input env (to_date (doc frm))"
  show "calls (events (load_sync env frm outcome)) = []"
    by (simp add: load_sync_throws[OF h] events_def calls_simps)
  show "calls (events (api_load_sync env frm outcome)) = []"
    by (simp add: api_load_sync_throws[OF h] events_def calls_simps)
qed

theorem one_call_per_invocation_witness:
  "formatToISO8601 engine_utc (from_date (doc scenario_form)) = Inr (Some ''2024-01-15T10:30:00Z'') \<and>
   formatToISO8601 engine_utc (to_date (doc scenario_form)) = Inr None \<and>
   calls (events (load_sync engine_utc scenario_form (Rejected JNull))) =
     [[(''method'', OStr sync_method),
       (''args'', OArgs [(''created_after'', Some ''2024-01-15T10:30:00Z''), (''created_before'', None)]),
       (''callback'', OFunction),
       (''error'', OFunction)]] \<and>
   calls (events (api_load_sync engine_utc scenario_form (Rejected JNull))) =
     [[(''method'', OStr sync_method),
       (''args'', OArgs [(''created_after'', Some ''2024-01-15T10:30:00Z''), (''created_before'', None)]),
       (''callback'', OFunction)]] \<and>
   \<not> valid_input engine_utc (from_date (doc \<lparr>doc = \<lparr>from_date = Str ''abc'', to_date = Null\<rparr>\<rparr>)) \<and>
   calls (events (load_sync engine_utc \<lparr>doc = \<lparr>from_date = Str ''abc'', to_date = Null\<rparr>\<rparr> (Rejected JNull))) = [] \<and>
   calls (events (api_load_sync engine_utc \<lparr>doc = \<lparr>from_date = Str ''abc'', to_date = Null\<rparr>\<rparr> (Rejected JNull))) = []"
proof -
  have f1: "formatToISO8601 engine_utc (from_date (doc scenario_form)) =
              Inr (Some ''2024-01-15T10:30:00Z'')"
    and f2: "formatToISO8601 engine_utc (to_date (doc scenario_form)) = Inr None"
    and f3: "\<not> valid_input engine_utc (from_date (doc \<lparr>doc = \<lparr>from_date = Str ''abc'', to_date = Null\<rparr>\<rparr>))"
    by code_simp+
  show ?thesis
    using f1 f2 f3
      one_call_per_invocation[of engine_utc scenario_form "Some ''2024-01-15T10:30:00Z''" None
        "Rejected JNull"]
      one_call_per_invocation[of engine_utc "\<lparr>doc = \<lparr>from_date = Str ''abc'', to_date = Null\<rparr>\<rparr>"
        None None "Rejected JNull"]
    by blast
qed

text \<open>
  The claim as the specification states it fails on a date that the engine does not
  parse: the invocation ends in the exception and issues no call.
\<close>

theorem no_call_counterexample:
  "calls (events (load_sync engine_utc \<lparr>doc = \<lparr>from_date = Str ''abc'', to_date = Null\<rparr>\<rparr>
     (Resolved \<lparr>message = JNull\<rparr>))) = [] \<and>
   thrown (load_sync engine_utc \<lparr>doc = \<lparr>from_date = Str ''abc'', to_date = Null\<rparr>\<rparr>
     (Resolved \<lparr>message = JNull\<rparr>)) = Some RangeError"
  by code_simp

text \<open>
  Claim C9. The scenario of the specification: \<^verbatim>\<open>from_date\<close> is
  \<^verbatim>\<open>"2024-01-15 10:30:00"\<close> and \<^verbatim>\<open>to_date\<close> is \<^verbatim>\<open>null\<close>. The string has a
  space where the standard format has \<^verbatim>\<open>T\<close>, so its reading belongs to the engine. On
  an engine that reads it as the local time 10:30:00 of 15 January 2024, in a zone at most
  a day from UTC, the one remote call receives as \<^verbatim>\<open>created_after\<close> that local time
  converted to UTC, which is \<^verbatim>\<open>"2024-01-15T10:30:00Z"\<close> where local time is UTC, and
  \<^verbatim>\<open>null\<close> as \<^verbatim>\<open>created_before\<close>.
\<close>

theorem scenario_arguments:
  assumes "legacy_parse env ''2024-01-15 10:30:00'' =
             Some (UTC env (MakeDate (MakeDay 2024 0 15) (MakeTime 10 30 0 0)))"
    and "\<bar>LocalTZA env (MakeDate (MakeDay 2024 0 15) (MakeTime 10 30 0 0))\<bar> \<le> 86400000"
  shows "passed (events (load_sync env scenario_form outcome)) =
           [[(''created_after'',
              Some (iso_seconds (UTC env (MakeDate (MakeDay 2024 0 15) (MakeTime 10 30 0 0))) @ ''Z'')),
             (''created_before'', None)]] \<and>
         (LocalTZA env (MakeDate (MakeDay 2024 0 15) (MakeTime 10 30 0 0)) = 0 \<longrightarrow>
            passed (events (load_sync env scenario_form outcome)) =
              [[(''created_after'', Some ''2024-01-15T10:30:00Z''), (''created_before'', None)]])"
proof -
  let ?u = "UTC env (MakeDate (MakeDay 2024 0 15) (MakeTime 10 30 0 0))"
  have "new_Date env (Str ''2024-01-15 10:30:00'') = Some ?u"
    using assms
    by (simp add: Date_parse_def scenario_not_iso TimeClip_def UTC_def scenario_local_time)
  then have a: "formatToISO8601 env (from_date (doc scenario_form)) = Inr (Some (iso_seconds ?u @ ''Z''))"
    by (simp add: scenario_form_def formatToISO8601_parsed)
  have b: "formatToISO8601 env (to_date (doc scenario_form)) = Inr None"
    by (simp add: scenario_form_def formatToISO8601_def)
  have p: "passed (events (load_sync env scenario_form outcome)) =
           [[(''created_after'', Some (iso_seconds ?u @ ''Z'')), (''created_before'', None)]]"
    by (simp add: passed_load_sync[OF a b] passed_def args_of_def)
  moreover have "iso_seconds ?u = ''2024-01-15T10:30:00''"
    if "LocalTZA env (MakeDate (MakeDay 2024 0 15) (MakeTime 10 30 0 0)) = 0"
    using that by (simp add: UTC_def scenario_local_time scenario_written)
  ultimately show ?thesis by simp
qed

theorem scenario_arguments_witness:
  "legacy_parse engine_utc ''2024-01-15 10:30:00'' =
     Some (UTC engine_utc (MakeDate (MakeDay 2024 0 15) (MakeTime 10 30 0 0))) \<and>
   \<bar>LocalTZA engine_utc (MakeDate (MakeDay 2024 0 15) (MakeTime 10 30 0 0))\<bar> \<le> 86400000 \<and>
   LocalTZA engine_utc (MakeDate (MakeDay 2024 0 15) (MakeTime 10 30 0 0)) = 0 \<and>
   passed (events (load_sync engine_utc scenario_form (Resolved \<lparr>message = JArr []\<rparr>))) =
     [[(''created_after'', Some ''2024-01-15T10:30:00Z''), (''created_before'', None)]] \<and>
   legacy_parse engine_ist ''2024-01-15 10:30:00'' =
     Some (UTC engine_ist (MakeDate (MakeDay 2024 0 15) (MakeTime 10 30 0 0))) \<and>
   \<bar>LocalTZA engine_ist (MakeDate (MakeDay 2024 0 15) (MakeTime 10 30 0 0))\<bar> \<le> 86400000 \<and>
   passed (events (load_sync engine_ist scenario_form (Resolved \<lparr>message = JArr []\<rparr>))) =
     [[(''created_after'', Some ''2024-01-15T05:00:00Z''), (''created_before'', None)]]"
proof -
  have u1: "legacy_parse engine_utc ''2024-01-15 10:30:00'' =
     Some (UTC engine_utc (MakeDate (MakeDay 2024 0 15) (MakeTime 10 30 0 0)))"
    and u2: "\<bar>LocalTZA engine_utc (MakeDate (MakeDay 2024 0 15) (MakeTime 10 30 0 0))\<bar> \<le> 86400000"
    and u3: "LocalTZA engine_utc (MakeDate (MakeDay 2024 0 15) (MakeTime 10 30 0 0)) = 0"
    and i1: "legacy_parse engine_ist ''2024-01-15 10:30:00'' =
     Some (UTC engine_ist (MakeDate (MakeDay 2024 0 15) (MakeTime 10 30 0 0)))"
    and i2: "\<bar>LocalTZA engine_ist (MakeDate (MakeDay 2024 0 15) (MakeTime 10 30 0 0))\<bar> \<le> 86400000"
    and i3: "iso_seconds (UTC engine_ist (MakeDate (MakeDay 2024 0 15) (MakeTime 10 30 0 0))) =
       ''2024-01-15T05:00:00''"
    by code_simp+
  have c1: "passed (events (load_sync engine_utc scenario_form (Resolved \<lparr>message = JArr []\<rparr>))) =
     [[(''created_after'', Some ''2024-01-15T10:30:00Z''), (''created_before'', None)]]"
    using scenario_arguments[OF u1 u2, of "Resolved \<lparr>message = JArr []\<rparr>"] u3 by blast
  have "passed (events (load_sync engine_ist scenario_form (Resolved \<lparr>message = JArr []\<rparr>))) =
     [[(''created_after'',
        Some (iso_seconds (UTC engine_ist (MakeDate (MakeDay 2024 0 15) (MakeTime 10 30 0 0))) @ ''Z'')),
       (''created_before'', None)]]"
    using scenario_arguments[OF i1 i2, of "Resolved \<lparr>message = JArr []\<rparr>"] by blast
  then have c2: "passed (events (load_sync engine_ist scenario_form (Resolved \<lparr>message = JArr []\<rparr>))) =
     [[(''created_after'', Some ''2024-01-15T05:00:00Z''), (''created_before'', None)]]"
    unfolding i3 by simp
  show ?thesis
    using u1 u2 u3 i1 i2 c1 c2 by blast
qed

section \<open>The claims about the normalised timestamp\<close>

text \<open>
  Claim C6, as the code has it. For every non-empty date string that the engine parses,
  to the time value \<open>t\<close>, \<^verbatim>\<open>formatToISO8601\<close> returns the UTC date and time of
  \<open>t\<close> down to the second, followed by the letter Z. The fraction of the second is
  discarded, not rounded: in every environment the result reads back as \<open>t\<close> less its
  milliseconds. When the UTC year of \<open>t\<close> is from 0 to 9999 the result has the shape
  \<^verbatim>\<open>YYYY-MM-DDTHH:mm:ssZ\<close>; outside that range \<^verbatim>\<open>toISOString\<close> writes the year
  with a sign and six digits. An input in the standard format is read as the standard
  has it: as local time only when it has a time and no offset, as UTC when it is a date
  alone, and with its own offset when it has one.
\<close>

theorem normalised_timestamp:
  assumes "s \<noteq> []" and "new_Date env (Str s) = Some t"
  shows "formatToISO8601 env (Str s) = Inr (Some (iso_seconds t @ ''Z'')) \<and>
         (0 \<le> YearFromTime t \<and> YearFromTime t \<le> 9999 \<longrightarrow>
            matches iso_pattern (iso_seconds t @ ''Z'')) \<and>
         new_Date env' (Str (iso_seconds t @ ''Z'')) = Some (t - t mod 1000) \<and>
         (read_iso s = Some f \<and> in_bounds f \<longrightarrow> fields_time env f = Some t)"
proof (intro conjI impI)
  show "formatToISO8601 env (Str s) = Inr (Some (iso_seconds t @ ''Z''))"
    using assms by (simp add: formatToISO8601_parsed)
  show "matches iso_pattern (iso_seconds t @ ''Z'')"
    if "0 \<le> YearFromTime t \<and> YearFromTime t \<le> 9999"
    using that by (simp add: matches_iso_seconds)
  show "new_Date env' (Str (iso_seconds t @ ''Z'')) = Some (t - t mod 1000)"
    using new_Date_valid[OF assms(2)] by (rule new_Date_written)
  show "fields_time env f = Some t" if "read_iso s = Some f \<and> in_bounds f"
    using that assms(2) by (auto simp: Date_parse_def split: option.splits dest: fields_time_clipped)
qed

theorem normalised_timestamp_witness:
  "''2024-02-29T23:59:59.999'' \<noteq> [] \<and>
   new_Date engine_ist (Str ''2024-02-29T23:59:59.999'') = Some 1709231399999 \<and>
   formatToISO8601 engine_ist (Str ''2024-02-29T23:59:59.999'') = Inr (Some ''2024-02-29T18:29:59Z'') \<and>
   matches iso_pattern ''2024-02-29T18:29:59Z'' \<and>
   new_Date engine_utc (Str ''2024-02-29T18:29:59Z'') = Some 1709231399000 \<and>
   read_iso ''2024-02-29T23:59:59.999'' =
     Some \<lparr>f_year = 2024, f_month = 2, f_day = 29, f_hour = 23, f_minute = 59,
           f_second = 59, f_ms = 999, f_zone = LocalTime\<rparr> \<and>
   in_bounds \<lparr>f_year = 2024, f_month = 2, f_day = 29, f_hour = 23, f_minute = 59,
           f_second = 59, f_ms = 999, f_zone = LocalTime\<rparr> \<and>
   fields_time engine_ist \<lparr>f_year = 2024, f_month = 2, f_day = 29, f_hour = 23, f_minute = 59,
           f_second = 59, f_ms = 999, f_zone = LocalTime\<rparr> = Some 1709231399999"
proof -
  have n: "new_Date engine_ist (Str ''2024-02-29T23:59:59.999'') = Some 1709231399999"
    by code_simp
  have i: "iso_seconds 1709231399999 = ''2024-02-29T18:29:59''"
    and y: "YearFromTime 1709231399999 = 2024"
    and r: "read_iso ''2024-02-29T23:59:59.999'' =
     Some \<lparr>f_year = 2024, f_month = 2, f_day = 29, f_hour = 23, f_minute = 59,
           f_second = 59, f_ms = 999, f_zone = LocalTime\<rparr>"
    and b: "in_bounds \<lparr>f_year = 2024, f_month = 2, f_day = 29, f_hour = 23, f_minute = 59,
           f_second = 59, f_ms = 999, f_zone = LocalTime\<rparr>"
    by code_simp+
  show ?thesis
    using n r b
      normalised_timestamp[OF _ n, of engine_utc
        "\<lparr>f_year = 2024, f_month = 2, f_day = 29, f_hour = 23, f_minute = 59,
           f_second = 59, f_ms = 999, f_zone = LocalTime\<rparr>"]
    by (simp add: i y)
qed

text \<open>
  The claim as the specification states it fails on a date alone, which is read as UTC
  and not as local time (five and a half hours east of Greenwich the local reading is
  18:30 of the day before), and on a year beyond 9999, where the result does not have the
  shape of the pattern.
\<close>

theorem date_only_and_expanded_year_counterexample:
  "formatToISO8601 engine_ist (Str ''2024-01-15'') = Inr (Some ''2024-01-15T00:00:00Z'') \<and>
   new_Date engine_ist (Str ''2024-01-15'') = Some 1705276800000 \<and>
   local_reading engine_ist ''2024-01-15'' = Some 1705257000000 \<and>
   new_Date engine_ist (Str ''2024-01-15'') \<noteq> local_reading engine_ist ''2024-01-15'' \<and>
   formatToISO8601 engine_utc (Str ''+010000-01-01T00:00:00'') =
     Inr (Some ''+010000-01-01T00:00:00Z'') \<and>
   \<not> matches iso_pattern ''+010000-01-01T00:00:00Z''"
  by code_simp

text \<open>
  Claim C7. Normalisation is idempotent under re-parsing: whenever
  \<^verbatim>\<open>formatToISO8601\<close> returns a value for an input, applying it to that value
  returns the same value, also on another engine or in another time zone. This covers
  every date that the engine parses, and the absent date, whose result \<^verbatim>\<open>null\<close> is
  again normalised to \<^verbatim>\<open>null\<close>.
\<close>

theorem normalisation_idempotent:
  assumes "formatToISO8601 env d = Inr v"
  shows "formatToISO8601 env' (case v of None \<Rightarrow> Null | Some out \<Rightarrow> Str out) = Inr v"
proof (cases v)
  case None
  then show ?thesis by (simp add: formatToISO8601_def)
next
  case (Some out)
  then obtain t where t: "new_Date env d = Some t" "out = iso_seconds t @ ''Z''"
    using assms formatToISO8601_Some by blast
  have v: "\<bar>t\<bar> \<le> 8640000000000000"
    using t(1) by (rule new_Date_valid)
  have nd: "new_Date env' (Str out) = Some (t - t mod 1000)"
    unfolding t(2) using v by (rule new_Date_written)
  have nf: "\<not> falsy_field (Str out)"
    by (simp add: t(2))
  have "formatToISO8601 env' (Str out) = Inr (Some (iso_seconds (t - t mod 1000) @ ''Z''))"
    using nf nd by (rule formatToISO8601_parsed)
  then show ?thesis
    using Some t(2) by (simp add: iso_seconds_floor)
qed

theorem normalisation_idempotent_witness:
  "formatToISO8601 engine_ist (Str ''2024-02-29T23:59:59.999'') = Inr (Some ''2024-02-29T18:29:59Z'') \<and>
   formatToISO8601 engine_ist (Str ''2024-02-29T18:29:59Z'') = Inr (Some ''2024-02-29T18:29:59Z'')"
proof -
  have n: "formatToISO8601 engine_ist (Str ''2024-02-29T23:59:59.999'') =
             Inr (Some ''2024-02-29T18:29:59Z'')"
    by code_simp
  show ?thesis
    using n normalisation_idempotent[OF n, of engine_ist] by simp
qed

end
